theory Spec2Isabelle
  imports Complex_Main "HOL-Library.Sublist" "HOL-Library.AList" "HOL-Library.Multiset"
begin

section \<open>Python strings\<close>

text \<open>
  Strings are lists of 8-bit characters. Host names, URLs and HTTP header names are ASCII,
  so \<open>str.lower\<close> and \<open>str.strip\<close> are modelled on the ASCII range: \<open>lower\<close> maps
  \<open>A\<close>..\<open>Z\<close> to \<open>a\<close>..\<open>z\<close> and leaves every other character alone, and the
  white space that \<open>strip\<close> removes is the ASCII white space of \<open>str.isspace\<close>
  (codes 9 to 13, 28 to 32).
\<close>

definition is_upper :: "char \<Rightarrow> bool" where
  "is_upper c = (65 \<le> (of_char c :: nat) \<and> (of_char c :: nat) \<le> 90)"

definition lower_char :: "char \<Rightarrow> char" where
  "lower_char c = (if is_upper c then char_of ((of_char c :: nat) + 32) else c)"

definition lower :: "string \<Rightarrow> string" where
  "lower s = map lower_char s"

definition upper_char :: "char \<Rightarrow> char" where
  "upper_char c =
     (if 97 \<le> (of_char c :: nat) \<and> (of_char c :: nat) \<le> 122
      then char_of ((of_char c :: nat) - 32) else c)"

definition upper :: "string \<Rightarrow> string" where
  "upper s = map upper_char s"

definition is_space :: "char \<Rightarrow> bool" where
  "is_space c =
     ((9 \<le> (of_char c :: nat) \<and> (of_char c :: nat) \<le> 13) \<or>
      (28 \<le> (of_char c :: nat) \<and> (of_char c :: nat) \<le> 32))"

definition strip :: "string \<Rightarrow> string" where
  "strip s = rev (dropWhile is_space (rev (dropWhile is_space s)))"

text \<open>\<open>s.rstrip(c)\<close> for a one-character argument.\<close>

definition rstrip :: "char \<Rightarrow> string \<Rightarrow> string" where
  "rstrip c s = rev (dropWhile (\<lambda>x. x = c) (rev s))"

text \<open>\<open>sub in s\<close>: \<open>sub\<close> occurs in \<open>s\<close> as a contiguous run.\<close>

fun contains :: "string \<Rightarrow> string \<Rightarrow> bool" where
  "contains sub [] = (sub = [])"
| "contains sub (c # cs) = (prefix sub (c # cs) \<or> contains sub cs)"

text \<open>
  \<open>s.replace(old, "")\<close> for a non-empty \<open>old\<close>: one pass from the left that deletes
  every occurrence it meets and goes on behind it, so an occurrence that only the deletion
  puts together remains.
\<close>

fun remove_all :: "string \<Rightarrow> string \<Rightarrow> string" where
  "remove_all old [] = []"
| "remove_all old (c # cs) =
     (if old \<noteq> [] \<and> prefix old (c # cs)
      then remove_all old (drop (length old - 1) cs)
      else c # remove_all old cs)"

text \<open>
  \<open>s.split(sep)\<close> for a non-empty \<open>sep\<close>: the pieces between the occurrences of
  \<open>sep\<close>, found from the left. The result always has a first element.
\<close>

fun split :: "string \<Rightarrow> string \<Rightarrow> string list" where
  "split sep [] = [[]]"
| "split sep (c # cs) =
     (if sep \<noteq> [] \<and> prefix sep (c # cs)
      then [] # split sep (drop (length sep - 1) cs)
      else (case split sep cs of
              [] \<Rightarrow> [[c]]
            | w # ws \<Rightarrow> (c # w) # ws))"

section \<open>Numbers\<close>

text \<open>
  Scores are Python floats; they are modelled by exact rationals. \<open>round(x, 1)\<close> rounds
  to the nearest tenth, a tie going to the even tenth.
\<close>

definition py_round1 :: "rat \<Rightarrow> rat" where
  "py_round1 x =
     (let y = x * 10; f = \<lfloor>y\<rfloor>; d = y - of_int f
      in of_int (if d < 1 / 2 then f else if 1 / 2 < d then f + 1
                 else if even f then f else f + 1) / 10)"

section \<open>The MCP server: \<open>src/mcp/main.py\<close>\<close>

subsection \<open>Target normalisation\<close>

definition clean_url :: "string \<Rightarrow> string" where
  "clean_url url =
     (let url1 = lower (strip url);
          url2 = remove_all ''https://'' (remove_all ''http://'' url1)
      in if contains ''/'' url2 then hd (split ''/'' url2) else url2)"

text \<open>
  The first lines of \<open>scan_vulnerabilities\<close> and \<open>analyze_security_headers\<close>: the
  request's URL is taken as it is, and \<open>https://\<close> is put in front of it unless it
  starts with one of the two schemes.
\<close>

definition request_url :: "string \<Rightarrow> string" where
  "request_url url =
     (if \<not> (prefix ''http://'' url \<or> prefix ''https://'' url)
      then ''https://'' @ url else url)"

subsection \<open>The HTTP client\<close>

text \<open>
  A response of \<open>requests\<close>: its headers are a case-insensitive dictionary, kept here as
  the list of its items (name as sent, value), which \<open>headers.items()\<close> and
  \<open>headers.keys()\<close> walk in order.
\<close>

record response =
  status_code :: int
  headers :: "(string \<times> string) list"
  resp_text :: string

text \<open>
  What a call of the HTTP client does: it returns a response, raises
  \<open>requests.RequestException\<close> (every failure of a request that the library reports), or
  raises some other exception. The string is \<open>str(e)\<close>.
\<close>

datatype outcome = Response response | RequestException string | OtherException string

text \<open>
  The network as the probes see it: the GET with a 10 second timeout that follows
  redirects, the GET with a 5 second timeout, the OPTIONS request, and the clock.
\<close>

record env =
  requests_get10 :: "string \<Rightarrow> outcome"
  requests_get5 :: "string \<Rightarrow> outcome"
  requests_options :: "string \<Rightarrow> outcome"
  now :: string

text \<open>\<open>name in headers\<close> and \<open>headers[name]\<close> of the case-insensitive dictionary.\<close>

fun header_get :: "(string \<times> string) list \<Rightarrow> string \<Rightarrow> string option" where
  "header_get [] name = None"
| "header_get ((h, v) # hs) name =
     (if lower h = lower name then Some v else header_get hs name)"

subsection \<open>\<open>analyze_security_headers\<close>\<close>

record header_info =
  name :: string
  importance :: string
  description :: string

definition security_headers_check :: "(string \<times> header_info) list" where
  "security_headers_check =
     [(''strict-transport-security'',
        \<lparr>name = ''HTTP Strict Transport Security (HSTS)'', importance = ''high'',
         description = ''Prevents protocol downgrade attacks''\<rparr>),
      (''content-security-policy'',
        \<lparr>name = ''Content Security Policy (CSP)'', importance = ''high'',
         description = ''Prevents XSS and data injection attacks''\<rparr>),
      (''x-frame-options'',
        \<lparr>name = ''X-Frame-Options'', importance = ''medium'',
         description = ''Prevents clickjacking attacks''\<rparr>),
      (''x-content-type-options'',
        \<lparr>name = ''X-Content-Type-Options'', importance = ''medium'',
         description = ''Prevents MIME-sniffing attacks''\<rparr>),
      (''x-xss-protection'',
        \<lparr>name = ''X-XSS-Protection'', importance = ''low'',
         description = ''Legacy XSS protection (deprecated but still useful)''\<rparr>),
      (''referrer-policy'',
        \<lparr>name = ''Referrer Policy'', importance = ''medium'',
         description = ''Controls referrer information''\<rparr>),
      (''permissions-policy'',
        \<lparr>name = ''Permissions Policy'', importance = ''medium'',
         description = ''Controls browser features and APIs''\<rparr>)]"

text \<open>
  The inner loop, \<open>for h, v in headers.items(): if h.lower() == header_name: ... break\<close>:
  the value of the first item whose lower-cased name is \<open>header_name\<close>.
\<close>

fun find_header :: "(string \<times> string) list \<Rightarrow> string \<Rightarrow> string option" where
  "find_header [] header_name = None"
| "find_header ((h, v) # hs) header_name =
     (if lower h = header_name then Some v else find_header hs header_name)"

text \<open>\<open>if header_value:\<close> holds for a value that is neither \<open>None\<close> nor empty.\<close>

definition truthy :: "string option \<Rightarrow> bool" where
  "truthy v = (case v of None \<Rightarrow> False | Some s \<Rightarrow> s \<noteq> [])"

text \<open>
  The outer loop over the catalog. The state is the dictionary \<open>present_headers\<close> (header
  name to value and metadata, in insertion order) and the list \<open>missing_headers\<close>.
\<close>

fun check_headers ::
  "(string \<times> header_info) list \<Rightarrow> (string \<times> string) list \<Rightarrow>
   (string \<times> string \<times> header_info) list \<times> (string \<times> header_info) list \<Rightarrow>
   (string \<times> string \<times> header_info) list \<times> (string \<times> header_info) list" where
  "check_headers [] hs (present, missing) = (present, missing)"
| "check_headers ((header_name, info) # rest) hs (present, missing) =
     (let header_value = find_header hs header_name
      in if truthy header_value
         then check_headers rest hs
                (AList.update header_name (the header_value, info) present, missing)
         else check_headers rest hs (present, missing @ [(header_name, info)]))"

definition high_importance :: "string list" where
  "high_importance =
     map fst (filter (\<lambda>(h, info). importance info = ''high'') security_headers_check)"

definition header_score :: "(string \<times> string \<times> header_info) list \<Rightarrow> rat" where
  "header_score present_headers =
     (let total_headers = length security_headers_check;
          present_count = length present_headers;
          score = (of_nat present_count / of_nat total_headers) * 10;
          high_present = filter (\<lambda>h. h \<in> set high_importance) (map fst present_headers);
          score = (if length high_present = length high_importance then score + 1
                   else if length high_present = 0 then score - 2
                   else score)
      in max 0 (min 10 score))"

definition grade_of :: "rat \<Rightarrow> string" where
  "grade_of score =
     (if 9 \<le> score then ''A'' else if 7 \<le> score then ''B''
      else if 5 \<le> score then ''C'' else if 3 \<le> score then ''D'' else ''F'')"

record headers_payload =
  hp_url :: string
  hp_security_score :: rat
  hp_grade :: string
  hp_present_headers :: "(string \<times> string \<times> header_info) list"
  hp_missing_headers :: "(string \<times> header_info) list"
  hp_total_headers_checked :: nat
  hp_headers_present :: nat
  hp_scan_timestamp :: string
  hp_recommendations :: "string list"

datatype headers_result = HeadersOk headers_payload | HeadersError string

definition analyze_security_headers :: "env \<Rightarrow> string \<Rightarrow> headers_result" where
  "analyze_security_headers e request_url_field =
     (let url = request_url request_url_field
      in case requests_get10 e url of
           RequestException msg \<Rightarrow>
             HeadersError (''Could not analyze headers for '' @ request_url_field @ '': '' @ msg)
         | OtherException msg \<Rightarrow> HeadersError (''Header analysis failed: '' @ msg)
         | Response r \<Rightarrow>
             (let (present_headers, missing_headers) =
                    check_headers security_headers_check (headers r) ([], []);
                  score = header_score present_headers
              in HeadersOk
                   \<lparr>hp_url = url,
                    hp_security_score = py_round1 score,
                    hp_grade = grade_of score,
                    hp_present_headers = present_headers,
                    hp_missing_headers = missing_headers,
                    hp_total_headers_checked = length security_headers_check,
                    hp_headers_present = length present_headers,
                    hp_scan_timestamp = now e,
                    hp_recommendations =
                      map (\<lambda>(h, info). ''Implement '' @ name info)
                        (filter (\<lambda>(h, info). importance info = ''high'') missing_headers)\<rparr>))"

subsection \<open>\<open>scan_vulnerabilities\<close>\<close>

text \<open>
  A finding is the dictionary the source appends to \<open>vulnerabilities\<close>: its items in the
  order they are written.
\<close>

datatype jval = Str string | Num int

type_synonym finding = "(string \<times> jval) list"

text \<open>
  The state of the scan: the list \<open>vulnerabilities\<close> and the running \<open>score\<close>. Every
  check that appends a finding subtracts its deduction in the same branch.
\<close>

type_synonym scan_state = "finding list \<times> rat"

definition security_headers :: "(string \<times> string) list" where
  "security_headers =
     [(''x-frame-options'', ''Clickjacking protection missing''),
      (''x-content-type-options'', ''MIME-sniffing protection missing''),
      (''x-xss-protection'', ''XSS protection header missing''),
      (''strict-transport-security'', ''HSTS header missing''),
      (''content-security-policy'', ''CSP header missing'')]"

fun check_missing_headers ::
  "(string \<times> string) list \<Rightarrow> (string \<times> string) list \<Rightarrow> scan_state \<Rightarrow> scan_state" where
  "check_missing_headers [] hs st = st"
| "check_missing_headers ((header, descr) # rest) hs (vulnerabilities, score) =
     (if header \<notin> set (map (\<lambda>(h, v). lower h) hs)
      then check_missing_headers rest hs
             (vulnerabilities @
                [[(''type'', Str ''Missing Security Header''),
                  (''severity'', Str ''medium''),
                  (''description'', Str descr),
                  (''header'', Str header)]],
              score - 1 / 2)
      else check_missing_headers rest hs (vulnerabilities, score))"

definition check_server :: "(string \<times> string) list \<Rightarrow> scan_state \<Rightarrow> scan_state" where
  "check_server hs st =
     (case st of (vulnerabilities, score) \<Rightarrow>
        (case header_get hs ''server'' of
           None \<Rightarrow> st
         | Some server_info \<Rightarrow>
             if list_ex (\<lambda>tech. contains tech (lower server_info)) [''apache'', ''nginx'', ''iis'']
             then (vulnerabilities @
                     [[(''type'', Str ''Information Disclosure''),
                       (''severity'', Str ''low''),
                       (''description'', Str (''Server information disclosed: '' @ server_info)),
                       (''detail'', Str server_info)]],
                   score - 1 / 5)
             else st))"

definition check_content :: "string \<Rightarrow> scan_state \<Rightarrow> scan_state" where
  "check_content content st =
     (case st of (vulnerabilities, score) \<Rightarrow>
        if contains ''sql'' content \<and> contains ''error'' content
        then (vulnerabilities @
                [[(''type'', Str ''Potential SQL Error''),
                  (''severity'', Str ''medium''),
                  (''description'', Str ''Possible SQL error messages in content'')]],
              score - 1)
        else st)"

definition vulnerable_paths :: "string list" where
  "vulnerable_paths = [''/admin'', ''/wp-admin'', ''/.env'', ''/config.php'']"

text \<open>
  One round of the loop over \<open>vulnerable_paths\<close>. The bare \<open>except: pass\<close> catches
  whatever the request raises.
\<close>

definition check_path :: "env \<Rightarrow> string \<Rightarrow> string \<Rightarrow> scan_state \<Rightarrow> scan_state" where
  "check_path e url path st =
     (case st of (vulnerabilities, score) \<Rightarrow>
        (case requests_get5 e (url @ path) of
           Response test_response \<Rightarrow>
             if status_code test_response = 200
             then (vulnerabilities @
                     [[(''type'', Str ''Exposed Endpoint''),
                       (''severity'', Str ''high''),
                       (''description'',
                          Str (''Potentially sensitive endpoint accessible: '' @ path)),
                       (''path'', Str path),
                       (''status_code'', Num (status_code test_response))]],
                   score - 3 / 2)
             else st
         | RequestException msg \<Rightarrow> st
         | OtherException msg \<Rightarrow> st))"

fun check_paths :: "env \<Rightarrow> string \<Rightarrow> string list \<Rightarrow> scan_state \<Rightarrow> scan_state" where
  "check_paths e url [] st = st"
| "check_paths e url (path # rest) st = check_paths e url rest (check_path e url path st)"

definition check_directory_listing :: "env \<Rightarrow> string \<Rightarrow> scan_state \<Rightarrow> scan_state" where
  "check_directory_listing e url st =
     (case st of (vulnerabilities, score) \<Rightarrow>
        (case requests_get5 e (rstrip CHR ''/'' url @ ''/'') of
           Response dir_response \<Rightarrow>
             if contains ''index of'' (lower (resp_text dir_response))
             then (vulnerabilities @
                     [[(''type'', Str ''Directory Listing''),
                       (''severity'', Str ''medium''),
                       (''description'', Str ''Directory listing may be enabled'')]],
                   score - 4 / 5)
             else st
         | RequestException msg \<Rightarrow> st
         | OtherException msg \<Rightarrow> st))"

fun check_methods :: "string list \<Rightarrow> string \<Rightarrow> scan_state \<Rightarrow> scan_state" where
  "check_methods [] allowed_methods st = st"
| "check_methods (method # rest) allowed_methods (vulnerabilities, score) =
     (if contains method (upper allowed_methods)
      then check_methods rest allowed_methods
             (vulnerabilities @
                [[(''type'', Str ''Dangerous HTTP Method''),
                  (''severity'', Str ''medium''),
                  (''description'', Str (''Dangerous HTTP method enabled: '' @ method)),
                  (''method'', Str method)]],
              score - 1 / 2)
      else check_methods rest allowed_methods (vulnerabilities, score))"

definition check_options :: "env \<Rightarrow> string \<Rightarrow> scan_state \<Rightarrow> scan_state" where
  "check_options e url st =
     (case requests_options e url of
        Response options_response \<Rightarrow>
          (case header_get (headers options_response) ''allow'' of
             None \<Rightarrow> st
           | Some allowed_methods \<Rightarrow>
               check_methods [''TRACE'', ''DELETE'', ''PUT''] allowed_methods st)
      | RequestException msg \<Rightarrow> st
      | OtherException msg \<Rightarrow> st)"

text \<open>The checks on the baseline response, run at every depth.\<close>

definition baseline_checks :: "response \<Rightarrow> scan_state \<Rightarrow> scan_state" where
  "baseline_checks r st =
     check_content (lower (resp_text r))
       (check_server (headers r)
          (check_missing_headers security_headers (headers r) st))"

text \<open>The body of the inner \<open>try\<close> after the baseline GET has returned \<open>r\<close>.\<close>

definition run_checks :: "env \<Rightarrow> string \<Rightarrow> string \<Rightarrow> response \<Rightarrow> scan_state" where
  "run_checks e url scan_depth r =
     (let st = baseline_checks r ([], 10);
          st = (if scan_depth \<in> set [''medium'', ''deep'']
                then check_directory_listing e url (check_paths e url vulnerable_paths st)
                else st);
          st = (if scan_depth = ''deep'' then check_options e url st else st)
      in st)"

definition risk_level_of :: "rat \<Rightarrow> string" where
  "risk_level_of score =
     (if 8 \<le> score then ''low'' else if 6 \<le> score then ''medium''
      else if 4 \<le> score then ''high'' else ''critical'')"

record vuln_payload =
  vp_url :: string
  vp_scan_depth :: string
  vp_vulnerabilities :: "finding list"
  vp_vulnerability_count :: nat
  vp_security_score :: rat
  vp_risk_level :: string
  vp_scan_timestamp :: string

text \<open>
  The three shapes the endpoint returns: the report, the dictionary
  \<open>{error, vulnerabilities, score}\<close> of the handler for \<open>requests.RequestException\<close>, and
  the dictionary \<open>{error}\<close> of the outer handler.
\<close>

datatype vuln_result =
    VulnOk vuln_payload
  | VulnConnectError string "finding list" rat
  | VulnFailed string

definition scan_vulnerabilities :: "env \<Rightarrow> string \<Rightarrow> string \<Rightarrow> vuln_result" where
  "scan_vulnerabilities e request_url_field scan_depth =
     (let url = request_url request_url_field
      in case requests_get10 e url of
           RequestException msg \<Rightarrow>
             VulnConnectError (''Could not connect to '' @ url @ '': '' @ msg) [] 0
         | OtherException msg \<Rightarrow> VulnFailed (''Vulnerability scan failed: '' @ msg)
         | Response r \<Rightarrow>
             (let (vulnerabilities, score) = run_checks e url scan_depth r;
                  score = max 0 score
              in VulnOk
                   \<lparr>vp_url = url,
                    vp_scan_depth = scan_depth,
                    vp_vulnerabilities = vulnerabilities,
                    vp_vulnerability_count = length vulnerabilities,
                    vp_security_score = py_round1 score,
                    vp_risk_level = risk_level_of score,
                    vp_scan_timestamp = now e\<rparr>))"

subsection \<open>\<open>scan_ports\<close>\<close>

text \<open>
  What \<open>socket.create_connection((domain, port), timeout=3)\<close> does: it connects, raises
  \<open>socket.timeout\<close> or \<open>socket.error\<close> (caught, the port is closed), or raises something
  else, which leaves the loop for the outer handler.
\<close>

datatype conn_outcome = Connected | SocketError | ConnException string

fun connect_ports ::
  "(int \<Rightarrow> conn_outcome) \<Rightarrow> int list \<Rightarrow> int list \<times> int list \<Rightarrow> string + int list \<times> int list" where
  "connect_ports conn [] (open_ports, closed_ports) = Inr (open_ports, closed_ports)"
| "connect_ports conn (port # rest) (open_ports, closed_ports) =
     (case conn port of
        Connected \<Rightarrow> connect_ports conn rest (open_ports @ [port], closed_ports)
      | SocketError \<Rightarrow> connect_ports conn rest (open_ports, closed_ports @ [port])
      | ConnException msg \<Rightarrow> Inl msg)"

definition default_ports :: "int list" where
  "default_ports = [21, 22, 23, 25, 53, 80, 110, 143, 443, 993, 995, 8080, 8443]"

text \<open>\<open>request.ports or [...]\<close>: the default list stands in for \<open>None\<close> and for \<open>[]\<close>.\<close>

definition ports_to_scan :: "int list option \<Rightarrow> int list" where
  "ports_to_scan ports =
     (case ports of None \<Rightarrow> default_ports
      | Some ps \<Rightarrow> if ps = [] then default_ports else ps)"

definition security_concerns :: "int list \<Rightarrow> string list" where
  "security_concerns open_ports =
     (if 21 \<in> set open_ports
      then [''FTP port 21 is open - consider using SFTP instead''] else []) @
     (if 23 \<in> set open_ports
      then [''Telnet port 23 is open - unencrypted protocol''] else []) @
     (if 80 \<in> set open_ports \<and> 443 \<notin> set open_ports
      then [''Only HTTP (port 80) available - no HTTPS''] else [])"

record ports_payload =
  pp_domain :: string
  pp_open_ports :: "int list"
  pp_closed_ports :: "int list"
  pp_total_scanned :: nat
  pp_security_concerns :: "string list"
  pp_scan_timestamp :: string

datatype ports_result = PortsOk ports_payload | PortsError string

definition scan_ports ::
  "(string \<Rightarrow> int \<Rightarrow> conn_outcome) \<Rightarrow> string \<Rightarrow> string \<Rightarrow> int list option \<Rightarrow> ports_result" where
  "scan_ports create_connection timestamp url ports =
     (let domain = clean_url url
      in case connect_ports (create_connection domain) (ports_to_scan ports) ([], []) of
           Inl msg \<Rightarrow> PortsError (''Port scan failed: '' @ msg)
         | Inr (open_ports, closed_ports) \<Rightarrow>
             PortsOk
               \<lparr>pp_domain = domain,
                pp_open_ports = open_ports,
                pp_closed_ports = closed_ports,
                pp_total_scanned = length (ports_to_scan ports),
                pp_security_concerns = security_concerns open_ports,
                pp_scan_timestamp = timestamp\<rparr>)"

subsection \<open>\<open>analyze_dns\<close>\<close>

text \<open>
  What \<open>dns.resolver.resolve(domain, record_type)\<close> does: it answers (each answer as
  \<open>str(answer)\<close>), raises \<open>NoAnswer\<close>, or raises something else.
\<close>

datatype dns_outcome = Answers "string list" | NoAnswer | ResolveError

definition record_types :: "string list" where
  "record_types = [''A'', ''AAAA'', ''MX'', ''TXT'', ''NS'', ''CNAME'']"

fun resolve_records ::
  "(string \<Rightarrow> dns_outcome) \<Rightarrow> string list \<Rightarrow> (string \<times> string list) list \<Rightarrow>
   (string \<times> string list) list" where
  "resolve_records resolve [] dns_info = dns_info"
| "resolve_records resolve (record_type # rest) dns_info =
     resolve_records resolve rest
       (AList.update record_type
          (case resolve record_type of
             Answers answers \<Rightarrow> answers
           | NoAnswer \<Rightarrow> []
           | ResolveError \<Rightarrow> [''Error resolving''])
          dns_info)"

text \<open>\<open>dns_info.get(key, [])\<close>.\<close>

definition dns_get :: "(string \<times> string list) list \<Rightarrow> string \<Rightarrow> string list" where
  "dns_get dns_info key = (case map_of dns_info key of None \<Rightarrow> [] | Some v \<Rightarrow> v)"

text \<open>The loop over the TXT records; the state is \<open>(spf_found, dmarc_found)\<close>.\<close>

fun scan_txt :: "string list \<Rightarrow> bool \<times> bool \<Rightarrow> bool \<times> bool" where
  "scan_txt [] (spf_found, dmarc_found) = (spf_found, dmarc_found)"
| "scan_txt (txt_record # rest) (spf_found, dmarc_found) =
     scan_txt rest
       (if prefix (CHR 0x22 # ''v=spf1'') txt_record then True else spf_found,
        if prefix (CHR 0x22 # ''v=DMARC1'') txt_record then True else dmarc_found)"

record dns_payload =
  dp_domain :: string
  dp_dns_records :: "(string \<times> string list) list"
  dp_security_issues :: "string list"
  dp_spf_configured :: bool
  dp_dmarc_configured :: bool
  dp_scan_timestamp :: string

text \<open>
  No step before the \<open>return\<close> raises (each resolution has its own handler), so the
  endpoint always returns the report.
\<close>

definition analyze_dns ::
  "(string \<Rightarrow> string \<Rightarrow> dns_outcome) \<Rightarrow> string \<Rightarrow> string \<Rightarrow> dns_payload" where
  "analyze_dns resolve timestamp request_domain =
     (let domain = lower (strip request_domain);
          domain = remove_all ''https://'' (remove_all ''http://'' domain);
          domain = (if contains ''/'' domain then hd (split ''/'' domain) else domain);
          dns_info = resolve_records (resolve domain) record_types [];
          (spf_found, dmarc_found) = scan_txt (dns_get dns_info ''TXT'') (False, False);
          security_issues =
            (if \<not> spf_found
             then [''No SPF record found - email spoofing protection missing''] else []) @
            (if \<not> dmarc_found
             then [''No DMARC record found - email authentication policy missing''] else []) @
            (if 5 < length (dns_get dns_info ''A'')
             then [''Many A records found - potential load balancing or CDN setup''] else [])
      in \<lparr>dp_domain = domain,
          dp_dns_records = dns_info,
          dp_security_issues = security_issues,
          dp_spf_configured = spf_found,
          dp_dmarc_configured = dmarc_found,
          dp_scan_timestamp = timestamp\<rparr>)"

subsection \<open>\<open>check_ssl_certificate\<close>: the Subject Alternative Names\<close>

text \<open>
  The dictionary that \<open>ssock.getpeercert()\<close> returns after the handshake. Its keys are
  \<open>subject\<close>, \<open>issuer\<close>, \<open>version\<close>, \<open>serialNumber\<close>, \<open>notBefore\<close>, \<open>notAfter\<close> and
  \<open>subjectAltName\<close> (the pairs of kind and value, such as \<open>('DNS', 'example.com')\<close>).
  The source reads the key \<open>extensions\<close>: the field is \<open>None\<close> when the dictionary has no
  such key, and otherwise holds \<open>str(ext)\<close> of each of its entries.
\<close>

record peer_cert =
  subject :: "(string \<times> string) list list"
  issuer :: "(string \<times> string) list list"
  notBefore :: string
  notAfter :: string
  subjectAltName :: "(string \<times> string) list"
  extensions :: "string list option"

text \<open>
  \<open>for ext in cert.get('extensions', [])\<close>. In the comprehension \<open>name.split(':')[1]\<close>
  is taken only of a \<open>name\<close> that holds a colon, so the second piece is there.
\<close>

fun san_loop :: "string list \<Rightarrow> string list \<Rightarrow> string list" where
  "san_loop [] san_list = san_list"
| "san_loop (ext # rest) san_list =
     san_loop rest
       (if contains ''subjectAltName'' ext
        then map (\<lambda>name. split '':'' name ! 1) (filter (contains '':'') (split '', '' ext))
        else san_list)"

text \<open>The value of the output field \<open>subject_alt_names\<close>.\<close>

definition subject_alt_names :: "peer_cert \<Rightarrow> string list" where
  "subject_alt_names cert =
     san_loop (case extensions cert of None \<Rightarrow> [] | Some exts \<Rightarrow> exts) []"

section \<open>The backend: \<open>src/backend/main.py\<close>\<close>

datatype json =
    JNull | JBool bool | JNum rat | JStr string | JArr "json list" | JObj "(string \<times> json) list"

text \<open>
  What the backend calls: \<open>requests.post(url, json=body)\<close> followed by
  \<open>raise_for_status()\<close> and \<open>response.json()\<close> (the decoded body, or \<open>str(e)\<close> of whatever
  was raised on the way), the language model (the summary, or \<open>str(e)\<close>), and
  \<open>json.dumps(_, indent=2)\<close>. \<open>MCP_URL\<close> is read from the process environment.
\<close>

record backend_env =
  mcp_url :: string
  requests_post :: "string \<Rightarrow> json \<Rightarrow> string + json"
  llm_invoke :: "string \<Rightarrow> string + string"
  json_dumps :: "json \<Rightarrow> string"

text \<open>
  The three tools. Each makes one POST and returns the decoded body, or a dictionary
  \<open>{error}\<close> when anything was raised. The POSTs made so far are kept in a log, the
  newest last.
\<close>

type_synonym post_log = "(string \<times> json) list"

definition tool_check_ssl_certificate ::
  "backend_env \<Rightarrow> string \<Rightarrow> bool \<Rightarrow> post_log \<Rightarrow> json \<times> post_log" where
  "tool_check_ssl_certificate e url check_chain posts =
     (let target = mcp_url e @ ''/check_ssl'';
          body = JObj [(''url'', JStr url), (''check_chain'', JBool check_chain)]
      in (case requests_post e target body of
            Inr j \<Rightarrow> j
          | Inl msg \<Rightarrow> JObj [(''error'', JStr (''SSL check failed: '' @ msg))],
          posts @ [(target, body)]))"

definition tool_scan_vulnerabilities ::
  "backend_env \<Rightarrow> string \<Rightarrow> string \<Rightarrow> post_log \<Rightarrow> json \<times> post_log" where
  "tool_scan_vulnerabilities e url scan_depth posts =
     (let target = mcp_url e @ ''/scan_vulnerabilities'';
          body = JObj [(''url'', JStr url), (''scan_depth'', JStr scan_depth)]
      in (case requests_post e target body of
            Inr j \<Rightarrow> j
          | Inl msg \<Rightarrow> JObj [(''error'', JStr (''Vulnerability scan failed: '' @ msg))],
          posts @ [(target, body)]))"

definition tool_analyze_security_headers ::
  "backend_env \<Rightarrow> string \<Rightarrow> post_log \<Rightarrow> json \<times> post_log" where
  "tool_analyze_security_headers e url posts =
     (let target = mcp_url e @ ''/analyze_security_headers'';
          body = JObj [(''url'', JStr url)]
      in (case requests_post e target body of
            Inr j \<Rightarrow> j
          | Inl msg \<Rightarrow> JObj [(''error'', JStr (''Security headers analysis failed: '' @ msg))],
          posts @ [(target, body)]))"

text \<open>The lines under \<open># Clean URL\<close> in \<open>scan_website\<close>.\<close>

definition scan_website_url :: "string \<Rightarrow> string" where
  "scan_website_url request_url_field =
     remove_all ''https://'' (remove_all ''http://'' (lower (strip request_url_field)))"

definition nl :: string where
  "nl = [CHR 0x0A]"

definition summary_prompt :: "backend_env \<Rightarrow> string \<Rightarrow> json \<Rightarrow> json \<Rightarrow> json \<Rightarrow> string" where
  "summary_prompt e url ssl_result vuln_result headers_result =
     nl @ ''Analyze these security scan results for the website '' @ url @ '':'' @ nl @ nl @
     ''SSL Certificate Check:'' @ nl @ json_dumps e ssl_result @ nl @ nl @
     ''Vulnerability Scan:'' @ nl @ json_dumps e vuln_result @ nl @ nl @
     ''Security Headers Analysis:'' @ nl @ json_dumps e headers_result @ nl @ nl @
     ''Please provide a comprehensive security assessment including:'' @ nl @
     ''1. Overall security rating (Excellent/Good/Fair/Poor/Critical)'' @ nl @
     ''2. Key security findings'' @ nl @
     ''3. Critical vulnerabilities that need immediate attention'' @ nl @
     ''4. Recommended improvements'' @ nl @
     ''5. Priority action items'' @ nl @ nl @
     ''Keep the summary clear and actionable.'' @ nl"

record scan_response =
  results :: "(string \<times> json) list"
  summary :: string

datatype http_exception = HTTPException int string

text \<open>
  \<open>scan_website\<close>: the response or the \<open>HTTPException\<close> it raises, and the POSTs it has
  made. The calls of \<open>print\<close> are left out.
\<close>

definition scan_website ::
  "backend_env \<Rightarrow> string \<Rightarrow> (http_exception + scan_response) \<times> post_log" where
  "scan_website e request_url_field =
     (let url = scan_website_url request_url_field;
          (ssl_result, posts) = tool_check_ssl_certificate e url True [];
          (vuln_result, posts) = tool_scan_vulnerabilities e url ''light'' posts;
          (headers_result, posts) = tool_analyze_security_headers e url posts;
          aggregated_results =
            [(''ssl'', ssl_result),
             (''vulnerabilities'', vuln_result),
             (''security_headers'', headers_result)]
      in (case llm_invoke e (summary_prompt e url ssl_result vuln_result headers_result) of
            Inl msg \<Rightarrow> Inl (HTTPException 500 (''Scan failed: '' @ msg))
          | Inr content \<Rightarrow> Inr \<lparr>results = aggregated_results, summary = content\<rparr>,
          posts))"

section \<open>Notions of the specification\<close>

text \<open>
  The Header Probe's score as the specification computes it from a test saying which
  catalog headers count as present: \<open>(present_count / 7) * 10\<close>, plus 1 when every
  high-importance header is present, minus 2 when none is, clamped to \<open>[0, 10]\<close>.
\<close>

definition catalog_score :: "(string \<Rightarrow> bool) \<Rightarrow> rat" where
  "catalog_score is_present =
     (let present_count = length (filter is_present (map fst security_headers_check));
          adjustment = (if list_all is_present high_importance then 1
                        else if list_all (\<lambda>h. \<not> is_present h) high_importance then - 2
                        else 0)
      in max 0 (min 10 (of_nat present_count / 7 * 10 + adjustment)))"

text \<open>
  A catalog header is found when the case-insensitive lookup meets it; it is sent with a
  value when the value met first is not empty.
\<close>

definition found :: "(string \<times> string) list \<Rightarrow> string \<Rightarrow> bool" where
  "found hs h = (find_header hs h \<noteq> None)"

definition sent_with_value :: "(string \<times> string) list \<Rightarrow> string \<Rightarrow> bool" where
  "sent_with_value hs h = truthy (find_header hs h)"

definition published_header_score :: "headers_result \<Rightarrow> rat option" where
  "published_header_score res =
     (case res of HeadersOk p \<Rightarrow> Some (hp_security_score p) | HeadersError msg \<Rightarrow> None)"

text \<open>The fixed deduction of a finding, by its \<open>type\<close>.\<close>

definition deduction :: "finding \<Rightarrow> rat" where
  "deduction f =
     (case map_of f ''type'' of
        Some (Str t) \<Rightarrow>
          (if t = ''Missing Security Header'' then 1 / 2
           else if t = ''Information Disclosure'' then 1 / 5
           else if t = ''Potential SQL Error'' then 1
           else if t = ''Exposed Endpoint'' then 3 / 2
           else if t = ''Directory Listing'' then 4 / 5
           else if t = ''Dangerous HTTP Method'' then 1 / 2
           else 0)
      | _ \<Rightarrow> 0)"

definition findings_of :: "vuln_result \<Rightarrow> finding list" where
  "findings_of res =
     (case res of
        VulnOk p \<Rightarrow> vp_vulnerabilities p
      | VulnConnectError msg vs sc \<Rightarrow> vs
      | VulnFailed msg \<Rightarrow> [])"

text \<open>
  The score a result publishes: \<open>security_score\<close> of the report, \<open>score\<close> of the
  dictionary for a failed baseline request.
\<close>

definition published_score :: "vuln_result \<Rightarrow> rat option" where
  "published_score res =
     (case res of
        VulnOk p \<Rightarrow> Some (vp_security_score p)
      | VulnConnectError msg vs sc \<Rightarrow> Some sc
      | VulnFailed msg \<Rightarrow> None)"

definition is_response :: "outcome \<Rightarrow> bool" where
  "is_response out = (case out of Response r \<Rightarrow> True | _ \<Rightarrow> False)"

text \<open>A response with nothing in it: status 404, no header, an empty body.\<close>

definition blank_response :: response where
  "blank_response = \<lparr>status_code = 404, headers = [], resp_text = []\<rparr>"

definition lower_cased :: "string \<Rightarrow> bool" where
  "lower_cased s = list_all (\<lambda>c. \<not> is_upper c) s"

text \<open>The five probe routes of the MCP server.\<close>

definition probe_routes :: "string list" where
  "probe_routes =
     [''/check_ssl'', ''/scan_vulnerabilities'', ''/analyze_security_headers'',
      ''/scan_ports'', ''/analyze_dns'']"

definition total_deduction :: "finding list \<Rightarrow> rat" where
  "total_deduction vs = sum_list (map deduction vs)"

text \<open>
  A later state of a scan extends an earlier one when it keeps the earlier findings in
  front and its score is the earlier score less the deductions of the findings added.
\<close>

definition extends :: "scan_state \<Rightarrow> scan_state \<Rightarrow> bool" where
  "extends st st' =
     (prefix (fst st) (fst st') \<and>
      snd st' = snd st - total_deduction (drop (length (fst st)) (fst st')))"

definition is_report :: "vuln_result \<Rightarrow> bool" where
  "is_report res = (case res of VulnOk p \<Rightarrow> True | _ \<Rightarrow> False)"

text \<open>The same result with another scan depth echoed in the report.\<close>

definition with_scan_depth :: "string \<Rightarrow> vuln_result \<Rightarrow> vuln_result" where
  "with_scan_depth d res =
     (case res of VulnOk p \<Rightarrow> VulnOk (p\<lparr>vp_scan_depth := d\<rparr>) | _ \<Rightarrow> res)"

text \<open>The keys of the report in a response of \<open>scan_website\<close>.\<close>

definition report_keys :: "http_exception + scan_response \<Rightarrow> string list option" where
  "report_keys res = (case res of Inl ex \<Rightarrow> None | Inr resp \<Rightarrow> Some (map fst (results resp)))"

text \<open>The Subject Alternative Names a certificate carries.\<close>

definition certificate_san :: "peer_cert \<Rightarrow> string list" where
  "certificate_san cert = map snd (subjectAltName cert)"

definition spf_issue :: string where
  "spf_issue = ''No SPF record found - email spoofing protection missing''"

definition dmarc_issue :: string where
  "dmarc_issue = ''No DMARC record found - email authentication policy missing''"

definition sftp_concern :: string where
  "sftp_concern = ''FTP port 21 is open - consider using SFTP instead''"

definition telnet_concern :: string where
  "telnet_concern = ''Telnet port 23 is open - unencrypted protocol''"

definition no_https_concern :: string where
  "no_https_concern = ''Only HTTP (port 80) available - no HTTPS''"

text \<open>The probe routes of the MCP server among the targets of a list of POSTs.\<close>

definition posted_routes :: "backend_env \<Rightarrow> post_log \<Rightarrow> string list" where
  "posted_routes e posts =
     filter (\<lambda>route. mcp_url e @ route \<in> set (map fst posts)) probe_routes"

section \<open>Test data\<close>

definition const_env :: "outcome \<Rightarrow> env" where
  "const_env out =
     \<lparr>requests_get10 = (\<lambda>u. out), requests_get5 = (\<lambda>u. out),
      requests_options = (\<lambda>u. out), now = ''2025-01-01T00:00:00+00:00''\<rparr>"

definition two_headers :: response where
  "two_headers =
     \<lparr>status_code = 200,
      headers = [(''X-Frame-Options'', ''DENY''),
                 (''Strict-Transport-Security'', ''max-age=31536000'')],
      resp_text = []\<rparr>"

text \<open>The same response with a \<open>Content-Security-Policy\<close> header whose value is empty.\<close>

definition empty_csp :: response where
  "empty_csp =
     \<lparr>status_code = 200,
      headers = [(''X-Frame-Options'', ''DENY''),
                 (''Strict-Transport-Security'', ''max-age=31536000''),
                 (''Content-Security-Policy'', [])],
      resp_text = []\<rparr>"

text \<open>A host name whose first label has 70 characters.\<close>

definition long_label_host :: string where
  "long_label_host = replicate 70 CHR ''a'' @ ''.com''"

text \<open>
  A response that trips every check: no security header, a server banner, a body with
  \<open>sql\<close>, \<open>error\<close> and \<open>index of\<close>, status 200, and an \<open>Allow\<close> header with the three
  dangerous methods.
\<close>

definition worst_response :: response where
  "worst_response =
     \<lparr>status_code = 200,
      headers = [(''Server'', ''Apache/2.4.1''), (''Allow'', ''GET, TRACE, DELETE, PUT'')],
      resp_text = ''SQL syntax error. Index of /''\<rparr>"

text \<open>A network where the baseline GET answers and every supplementary request fails.\<close>

definition supplementary_down :: "response \<Rightarrow> env" where
  "supplementary_down r =
     \<lparr>requests_get10 = (\<lambda>u. Response r),
      requests_get5 = (\<lambda>u. RequestException ''Read timed out''),
      requests_options = (\<lambda>u. OtherException ''Connection reset''),
      now = ''2025-01-01T00:00:00+00:00''\<rparr>"

text \<open>A certificate as \<open>getpeercert()\<close> returns it, with two DNS names.\<close>

definition example_cert :: peer_cert where
  "example_cert =
     \<lparr>subject = [[(''commonName'', ''example.com'')]],
      issuer = [[(''countryName'', ''US'')], [(''organizationName'', ''Example CA'')],
                [(''commonName'', ''Example CA R1'')]],
      notBefore = ''Jan  1 00:00:00 2025 GMT'',
      notAfter = ''Jan  1 00:00:00 2026 GMT'',
      subjectAltName = [(''DNS'', ''example.com''), (''DNS'', ''www.example.com'')],
      extensions = None\<rparr>"

text \<open>A host on which exactly the given ports accept connections.\<close>

definition host_with :: "int list \<Rightarrow> string \<Rightarrow> int \<Rightarrow> conn_outcome" where
  "host_with open_ports domain port = (if port \<in> set open_ports then Connected else SocketError)"

text \<open>A resolver that answers TXT queries with the given records and nothing else.\<close>

definition txt_only :: "string list \<Rightarrow> string \<Rightarrow> string \<Rightarrow> dns_outcome" where
  "txt_only records domain record_type =
     (if record_type = ''TXT'' then Answers records else NoAnswer)"

text \<open>
  A backend whose MCP server echoes the body of every POST and whose language model
  always answers.
\<close>

definition echo_backend :: backend_env where
  "echo_backend =
     \<lparr>mcp_url = ''http://localhost:8001'',
      requests_post = (\<lambda>target body. Inr body),
      llm_invoke = (\<lambda>prompt. Inr ''Overall security rating: Fair''),
      json_dumps = (\<lambda>j. ''{}'')\<rparr>"

section \<open>The Header Probe's score\<close>

lemma check_headers_keys:
  "distinct (map fst cat) \<Longrightarrow> set (map fst cat) \<inter> set (map fst present) = {} \<Longrightarrow>
   map fst (fst (check_headers cat hs (present, missing))) =
     map fst present @ filter (\<lambda>h. truthy (find_header hs h)) (map fst cat)"
proof (induction cat arbitrary: present missing)
  case Nil
  then show ?case by simp
next
  case (Cons a cat)
  obtain h info where a: "a = (h, info)" by (cases a)
  from Cons.prems have d: "distinct (map fst cat)" and hn: "h \<notin> set (map fst cat)"
    and hp: "h \<notin> set (map fst present)"
    and dis: "set (map fst cat) \<inter> set (map fst present) = {}"
    by (auto simp: a)
  show ?case
  proof (cases "truthy (find_header hs h)")
    case True
    have k: "map fst (AList.update h (the (find_header hs h), info) present) =
               map fst present @ [h]"
      using hp by (simp add: update_keys)
    have "set (map fst cat) \<inter>
            set (map fst (AList.update h (the (find_header hs h), info) present)) = {}"
      using dis hn by (simp add: k)
    from Cons.IH[OF d this] True show ?thesis
      by (simp add: a k)
  next
    case False
    from Cons.IH[OF d dis] False show ?thesis
      by (simp add: a)
  qed
qed

lemma present_headers_keys:
  "map fst (fst (check_headers security_headers_check hs ([], []))) =
     filter (sent_with_value hs) (map fst security_headers_check)"
proof -
  have d: "distinct (map fst security_headers_check)"
    by (simp add: security_headers_check_def)
  have "sent_with_value hs = (\<lambda>h. truthy (find_header hs h))"
    by (rule ext) (simp add: sent_with_value_def)
  with check_headers_keys[OF d, of "[]" hs "[]"] show ?thesis by simp
qed

lemma high_importance_eq:
  "high_importance = [''strict-transport-security'', ''content-security-policy'']"
  by (simp add: high_importance_def security_headers_check_def)

lemma header_score_eq:
  assumes "map fst present = filter P (map fst security_headers_check)"
  shows "header_score present = catalog_score P"
proof -
  have len: "length present = length (filter P (map fst security_headers_check))"
    using assms by (metis length_map)
  have hp: "filter (\<lambda>h. h \<in> set high_importance) (map fst present) =
              filter P high_importance"
    unfolding assms by (simp add: high_importance_eq security_headers_check_def)
  have every: "(length (filter P high_importance) = length high_importance) =
                 list_all P high_importance"
    by (simp add: high_importance_eq)
  have none: "(length (filter P high_importance) = 0) =
                list_all (\<lambda>h. \<not> P h) high_importance"
    by (simp add: high_importance_eq)
  have seven: "length security_headers_check = 7"
    by (simp add: security_headers_check_def)
  show ?thesis
    unfolding header_score_def catalog_score_def Let_def hp every none len seven
    by simp
qed

text \<open>
  The claim as the specification words it (the score is the clamped value itself, and a
  header counts once the lookup finds it) fails twice. For a response that sends
  \<open>X-Frame-Options\<close> and \<open>Strict-Transport-Security\<close> the clamped value is \<open>20/7\<close>
  and the probe publishes \<open>2.9\<close>. When the response also sends
  \<open>Content-Security-Policy\<close> with an empty value, the lookup finds three headers, both
  high-importance ones among them, which makes \<open>37/7\<close>; the probe lists the header as
  missing and still publishes \<open>2.9\<close>.
\<close>

lemma two_headers_published:
  "published_header_score
     (analyze_security_headers (const_env (Response two_headers)) ''example.com'') =
   Some (29 / 10)"
  by code_simp

lemma two_headers_clamped: "catalog_score (found (headers two_headers)) = 20 / 7"
  by code_simp

lemma empty_csp_published:
  "published_header_score
     (analyze_security_headers (const_env (Response empty_csp)) ''example.com'') =
   Some (29 / 10)"
  by code_simp

lemma empty_csp_clamped: "py_round1 (catalog_score (found (headers empty_csp))) = 53 / 10"
  by code_simp

theorem header_score_unrounded_counterexample:
  "published_header_score
     (analyze_security_headers (const_env (Response two_headers)) ''example.com'') \<noteq>
   Some (catalog_score (found (headers two_headers))) \<and>
   published_header_score
     (analyze_security_headers (const_env (Response empty_csp)) ''example.com'') \<noteq>
   Some (py_round1 (catalog_score (found (headers empty_csp))))"
  unfolding two_headers_published two_headers_clamped empty_csp_published empty_csp_clamped
  by simp

text \<open>
  C1, as amended. Whenever the GET returns a response, the published score is
  \<open>clamp((present_count / 7) * 10 + adjustment, 0, 10)\<close> rounded to one decimal place,
  where a catalog header counts as present when the case-insensitive lookup finds it with
  a value that is not empty, and the adjustment is +1 when both high-importance headers
  are present, -2 when neither is, and 0 otherwise.
\<close>

theorem analyze_security_headers_score:
  assumes "requests_get10 e (request_url u) = Response r"
  shows "published_header_score (analyze_security_headers e u) =
           Some (py_round1 (catalog_score (sent_with_value (headers r))))"
proof -
  obtain present missing where cm:
    "check_headers security_headers_check (headers r) ([], []) = (present, missing)"
    by (cases "check_headers security_headers_check (headers r) ([], [])")
  have "map fst present = filter (sent_with_value (headers r)) (map fst security_headers_check)"
    using present_headers_keys[of "headers r"] cm by simp
  from header_score_eq[OF this] show ?thesis
    using assms cm
    by (simp add: analyze_security_headers_def published_header_score_def Let_def)
qed

theorem analyze_security_headers_score_witness:
  "requests_get10 (const_env (Response two_headers)) (request_url ''example.com'') =
     Response two_headers \<and>
   published_header_score
     (analyze_security_headers (const_env (Response two_headers)) ''example.com'') =
   Some (py_round1 (catalog_score (sent_with_value (headers two_headers))))"
proof -
  have h: "requests_get10 (const_env (Response two_headers)) (request_url ''example.com'') =
             Response two_headers"
    by (simp add: const_env_def)
  from h analyze_security_headers_score[OF h] show ?thesis by (rule conjI)
qed

text \<open>
  When no header of the response has an empty value, being found and being sent with a
  value are the same. A catalog header sent with an empty value is found by the lookup
  and listed as missing.
\<close>

lemma sent_with_value_found:
  "list_all (\<lambda>(h, v). v \<noteq> []) hs \<Longrightarrow> sent_with_value hs k = found hs k"
  by (induction hs) (auto simp: sent_with_value_def found_def truthy_def split: if_splits option.splits)

lemma empty_value_is_missing:
  "found [(''Content-Security-Policy'', [])] ''content-security-policy'' \<and>
   \<not> sent_with_value [(''Content-Security-Policy'', [])] ''content-security-policy''"
  by code_simp

section \<open>The Vulnerability Probe: findings and deductions\<close>

lemma deduction_nonneg: "0 \<le> deduction f"
  by (simp add: deduction_def split: option.splits jval.splits)

lemma deduction_tenths: "deduction f * 10 \<in> \<int>"
  by (simp add: deduction_def split: option.splits jval.splits)

lemma total_deduction_nonneg: "0 \<le> total_deduction vs"
  unfolding total_deduction_def
  by (induction vs) (simp_all add: deduction_nonneg)

lemma total_deduction_tenths: "total_deduction vs * 10 \<in> \<int>"
  unfolding total_deduction_def
  by (induction vs) (simp_all add: distrib_right deduction_tenths)

lemma total_deduction_append:
  "total_deduction (xs @ ys) = total_deduction xs + total_deduction ys"
  by (simp add: total_deduction_def)

lemma total_deduction_mono:
  assumes "mset xs \<subseteq># mset ys"
  shows "total_deduction xs \<le> total_deduction ys"
proof -
  from assms obtain C where C: "mset ys = mset xs + C"
    by (auto simp: mset_subset_eq_exists_conv)
  have "total_deduction ys = sum_mset (image_mset deduction (mset ys))"
    by (simp add: total_deduction_def sum_mset_sum_list[symmetric])
  also have "\<dots> = total_deduction xs + sum_mset (image_mset deduction C)"
    by (simp add: C total_deduction_def sum_mset_sum_list[symmetric])
  finally have eq: "total_deduction ys = total_deduction xs + sum_mset (image_mset deduction C)" .
  have "0 \<le> sum_mset (image_mset deduction C)"
    by (induction C) (simp_all add: deduction_nonneg)
  with eq show ?thesis by simp
qed

lemma py_round1_tenths:
  assumes "x * 10 \<in> \<int>"
  shows "py_round1 x = x"
proof -
  from assms obtain k :: int where k: "x * 10 = of_int k"
    by (auto elim: Ints_cases)
  show ?thesis
    by (simp add: py_round1_def Let_def k)
qed

lemma extends_refl: "extends st st"
  by (simp add: extends_def total_deduction_def)

lemma extends_trans:
  assumes "extends a b" and "extends b c"
  shows "extends a c"
proof -
  from assms obtain xs ys where b: "fst b = fst a @ xs" and c: "fst c = fst b @ ys"
    by (auto simp: extends_def prefix_def)
  from assms show ?thesis
    by (simp add: extends_def b c total_deduction_append)
qed

lemma extends_append: "k = deduction f \<Longrightarrow> extends (vs, sc) (vs @ [f], sc - k)"
  by (simp add: extends_def total_deduction_def)

lemma extends_after:
  "k = deduction f \<Longrightarrow> extends (vs @ [f], sc - k) st \<Longrightarrow> extends (vs, sc) st"
  by (rule extends_trans[OF extends_append])

lemma extends_initial:
  assumes "extends ([], 10) st"
  shows "snd st = 10 - total_deduction (fst st)"
  using assms by (simp add: extends_def)

lemma check_missing_headers_extends: "extends st (check_missing_headers cat hs st)"
proof (induction cat hs st rule: check_missing_headers.induct)
  case (1 hs st)
  show ?case by (simp add: extends_refl)
next
  case (2 header descr rest hs vulnerabilities score)
  show ?case
  proof (cases "header \<notin> set (map (\<lambda>(h, v). lower h) hs)")
    case True
    let ?f = "[(''type'', Str ''Missing Security Header''), (''severity'', Str ''medium''),
               (''description'', Str descr), (''header'', Str header)]"
    have "extends (vulnerabilities @ [?f], score - 1 / 2)
            (check_missing_headers rest hs (vulnerabilities @ [?f], score - 1 / 2))"
      using 2 True by simp
    moreover have "1 / 2 = deduction ?f"
      by (simp add: deduction_def)
    ultimately have "extends (vulnerabilities, score)
                       (check_missing_headers rest hs (vulnerabilities @ [?f], score - 1 / 2))"
      by (rule extends_after[rotated])
    with True show ?thesis by simp
  next
    case False
    with 2 show ?thesis by simp
  qed
qed

lemma check_server_extends: "extends st (check_server hs st)"
  by (cases st)
     (auto simp: check_server_def extends_refl deduction_def
           intro!: extends_append split: option.splits)

lemma check_content_extends: "extends st (check_content content st)"
  by (cases st)
     (auto simp: check_content_def extends_refl deduction_def intro!: extends_append)

lemma check_path_extends: "extends st (check_path e url path st)"
  by (cases st)
     (auto simp: check_path_def extends_refl deduction_def
           intro!: extends_append split: outcome.splits)

lemma check_paths_extends: "extends st (check_paths e url paths st)"
proof (induction paths arbitrary: st)
  case Nil
  show ?case by (simp add: extends_refl)
next
  case (Cons path paths)
  have "extends st (check_path e url path st)"
    by (rule check_path_extends)
  moreover have "extends (check_path e url path st)
                   (check_paths e url paths (check_path e url path st))"
    by (rule Cons)
  ultimately show ?case
    by (simp add: extends_trans)
qed

lemma check_directory_listing_extends: "extends st (check_directory_listing e url st)"
  by (cases st)
     (auto simp: check_directory_listing_def extends_refl deduction_def
           intro!: extends_append split: outcome.splits)

lemma check_methods_extends: "extends st (check_methods ms allowed st)"
proof (induction ms allowed st rule: check_methods.induct)
  case (1 allowed st)
  show ?case by (simp add: extends_refl)
next
  case (2 meth rest allowed vulnerabilities score)
  show ?case
  proof (cases "contains meth (upper allowed)")
    case True
    let ?f = "[(''type'', Str ''Dangerous HTTP Method''), (''severity'', Str ''medium''),
               (''description'', Str (''Dangerous HTTP method enabled: '' @ meth)),
               (''method'', Str meth)]"
    have "extends (vulnerabilities @ [?f], score - 1 / 2)
            (check_methods rest allowed (vulnerabilities @ [?f], score - 1 / 2))"
      using 2 True by simp
    moreover have "1 / 2 = deduction ?f"
      by (simp add: deduction_def)
    ultimately have "extends (vulnerabilities, score)
                       (check_methods rest allowed (vulnerabilities @ [?f], score - 1 / 2))"
      by (rule extends_after[rotated])
    with True show ?thesis by simp
  next
    case False
    with 2 show ?thesis by simp
  qed
qed

lemma check_options_extends: "extends st (check_options e url st)"
  by (auto simp: check_options_def extends_refl check_methods_extends
           split: outcome.splits option.splits)

lemma baseline_checks_extends: "extends st (baseline_checks r st)"
  unfolding baseline_checks_def
  by (rule extends_trans[OF extends_trans[OF check_missing_headers_extends
        check_server_extends] check_content_extends])

lemma run_checks_light: "run_checks e url ''light'' r = baseline_checks r ([], 10)"
  by (simp add: run_checks_def)

lemma run_checks_medium:
  "run_checks e url ''medium'' r =
     check_directory_listing e url
       (check_paths e url vulnerable_paths (baseline_checks r ([], 10)))"
  by (simp add: run_checks_def)

lemma run_checks_deep:
  "run_checks e url ''deep'' r = check_options e url (run_checks e url ''medium'' r)"
  by (simp add: run_checks_def)

lemma run_checks_other:
  "d \<noteq> ''medium'' \<Longrightarrow> d \<noteq> ''deep'' \<Longrightarrow> run_checks e url d r = baseline_checks r ([], 10)"
  by (simp add: run_checks_def)

lemma light_medium_extends:
  "extends (run_checks e url ''light'' r) (run_checks e url ''medium'' r)"
  unfolding run_checks_light run_checks_medium
  by (rule extends_trans[OF check_paths_extends check_directory_listing_extends])

lemma medium_deep_extends:
  "extends (run_checks e url ''medium'' r) (run_checks e url ''deep'' r)"
  unfolding run_checks_deep by (rule check_options_extends)

lemma run_checks_extends: "extends ([], 10) (run_checks e url d r)"
proof -
  have "extends ([], 10) (baseline_checks r ([], 10))"
    by (rule baseline_checks_extends)
  moreover have "extends (baseline_checks r ([], 10)) (run_checks e url d r)"
  proof (cases "d = ''medium''")
    case True
    with light_medium_extends[of e url r] show ?thesis
      by (simp add: run_checks_light)
  next
    case False
    note not_medium = this
    show ?thesis
    proof (cases "d = ''deep''")
      case True
      with extends_trans[OF light_medium_extends medium_deep_extends, of e url r]
      show ?thesis by (simp add: run_checks_light)
    next
      case False
      with not_medium show ?thesis
        by (simp add: run_checks_other extends_refl)
    qed
  qed
  ultimately show ?thesis by (rule extends_trans)
qed

lemma scan_report:
  assumes "requests_get10 e (request_url u) = Response r"
  shows "scan_vulnerabilities e u d =
           VulnOk
             \<lparr>vp_url = request_url u,
              vp_scan_depth = d,
              vp_vulnerabilities = fst (run_checks e (request_url u) d r),
              vp_vulnerability_count = length (fst (run_checks e (request_url u) d r)),
              vp_security_score = py_round1 (max 0 (snd (run_checks e (request_url u) d r))),
              vp_risk_level = risk_level_of (max 0 (snd (run_checks e (request_url u) d r))),
              vp_scan_timestamp = now e\<rparr>"
  using assms by (simp add: scan_vulnerabilities_def Let_def split: prod.splits)

lemma scan_report_cases:
  assumes "scan_vulnerabilities e u d = VulnOk p"
  obtains r where "requests_get10 e (request_url u) = Response r"
  using assms
  by (cases "requests_get10 e (request_url u)")
     (auto simp: scan_vulnerabilities_def Let_def)

lemma report_score:
  assumes "scan_vulnerabilities e u d = VulnOk p"
  shows "vp_security_score p = max 0 (10 - total_deduction (vp_vulnerabilities p))"
proof -
  from assms obtain r where r: "requests_get10 e (request_url u) = Response r"
    by (rule scan_report_cases)
  let ?st = "run_checks e (request_url u) d r"
  have sc: "snd ?st = 10 - total_deduction (fst ?st)"
    by (rule extends_initial[OF run_checks_extends])
  have "max 0 (10 - total_deduction (fst ?st)) * 10 \<in> \<int>"
  proof (cases "0 \<le> 10 - total_deduction (fst ?st)")
    case True
    have "(10 - total_deduction (fst ?st)) * 10 = 100 - total_deduction (fst ?st) * 10"
      by (simp add: left_diff_distrib)
    with True total_deduction_tenths[of "fst ?st"] show ?thesis
      by (simp add: max_def)
  next
    case False
    then show ?thesis by (simp add: max_def)
  qed
  then have "py_round1 (max 0 (10 - total_deduction (fst ?st))) =
               max 0 (10 - total_deduction (fst ?st))"
    by (rule py_round1_tenths)
  with scan_report[OF r, of d] assms sc show ?thesis by auto
qed

lemma py_round1_zero: "py_round1 0 = 0"
  by (simp add: py_round1_def)

lemma prefix_mset_subset: "prefix xs ys \<Longrightarrow> mset xs \<subseteq># mset ys"
  by (auto simp: prefix_def)

lemma findings_prefix_light_deep:
  "prefix (findings_of (scan_vulnerabilities e u ''light''))
     (findings_of (scan_vulnerabilities e u ''deep''))"
proof (cases "requests_get10 e (request_url u)")
  case (Response r)
  have "extends (run_checks e (request_url u) ''light'' r) (run_checks e (request_url u) ''deep'' r)"
    by (rule extends_trans[OF light_medium_extends medium_deep_extends])
  then show ?thesis
    by (simp add: scan_report[OF Response] findings_of_def extends_def)
next
  case (RequestException msg)
  then show ?thesis by (simp add: scan_vulnerabilities_def findings_of_def)
next
  case (OtherException msg)
  then show ?thesis by (simp add: scan_vulnerabilities_def findings_of_def)
qed

text \<open>
  C2. Every score the probe publishes lies in \<open>[0, 10]\<close> and is a whole number of
  tenths. In a report it is 10 less the fixed deductions of the findings listed, floored
  at 0 and rounded to one decimal place; and of two reports, the one that lists the
  findings of the other and possibly more has the lower or the same score.
\<close>

theorem vulnerability_score:
  "(\<forall>s. published_score (scan_vulnerabilities e u d) = Some s \<longrightarrow>
        0 \<le> s \<and> s \<le> 10 \<and> s * 10 \<in> \<int>) \<and>
   (\<forall>p. scan_vulnerabilities e u d = VulnOk p \<longrightarrow>
        vp_security_score p =
          py_round1 (max 0 (10 - total_deduction (vp_vulnerabilities p))) \<and>
        (\<forall>e' u' d' p'.
            scan_vulnerabilities e' u' d' = VulnOk p' \<longrightarrow>
            mset (vp_vulnerabilities p) \<subseteq># mset (vp_vulnerabilities p') \<longrightarrow>
            vp_security_score p' \<le> vp_security_score p))"
proof (intro conjI allI impI)
  fix p
  assume p: "scan_vulnerabilities e u d = VulnOk p"
  let ?raw = "max 0 (10 - total_deduction (vp_vulnerabilities p))"
  have score: "vp_security_score p = ?raw"
    by (rule report_score[OF p])
  have "?raw * 10 \<in> \<int>"
  proof (cases "0 \<le> 10 - total_deduction (vp_vulnerabilities p)")
    case True
    have "(10 - total_deduction (vp_vulnerabilities p)) * 10 =
            100 - total_deduction (vp_vulnerabilities p) * 10"
      by (simp add: left_diff_distrib)
    with True total_deduction_tenths[of "vp_vulnerabilities p"] show ?thesis
      by (simp add: max_def)
  next
    case False
    then show ?thesis by (simp add: max_def)
  qed
  then have "py_round1 ?raw = ?raw"
    by (rule py_round1_tenths)
  with score show "vp_security_score p = py_round1 ?raw" by simp
  fix e' u' d' p'
  assume p': "scan_vulnerabilities e' u' d' = VulnOk p'"
    and sub: "mset (vp_vulnerabilities p) \<subseteq># mset (vp_vulnerabilities p')"
  from total_deduction_mono[OF sub] report_score[OF p'] score
  show "vp_security_score p' \<le> vp_security_score p" by simp
next
  fix s
  assume s: "published_score (scan_vulnerabilities e u d) = Some s"
  show "0 \<le> s" "s \<le> 10" "s * 10 \<in> \<int>"
  proof -
    consider (ok) p where "scan_vulnerabilities e u d = VulnOk p"
      | (err) msg where "scan_vulnerabilities e u d = VulnConnectError msg [] 0"
      | (failed) msg where "scan_vulnerabilities e u d = VulnFailed msg"
    proof (cases "requests_get10 e (request_url u)")
      case (Response r)
      from scan_report[OF this, of d] ok show ?thesis by blast
    next
      case (RequestException msg)
      then have "scan_vulnerabilities e u d =
                   VulnConnectError (''Could not connect to '' @ request_url u @ '': '' @ msg) [] 0"
        by (simp add: scan_vulnerabilities_def)
      with err show ?thesis by blast
    next
      case (OtherException msg)
      then have "scan_vulnerabilities e u d = VulnFailed (''Vulnerability scan failed: '' @ msg)"
        by (simp add: scan_vulnerabilities_def)
      with failed show ?thesis by blast
    qed
    then have "0 \<le> s \<and> s \<le> 10 \<and> s * 10 \<in> \<int>"
    proof cases
      case ok
      from s ok have sp: "s = vp_security_score p"
        by (simp add: published_score_def)
      have raw: "s = max 0 (10 - total_deduction (vp_vulnerabilities p))"
        unfolding sp by (rule report_score[OF ok])
      have "(10 - total_deduction (vp_vulnerabilities p)) * 10 =
              100 - total_deduction (vp_vulnerabilities p) * 10"
        by (simp add: left_diff_distrib)
      with raw total_deduction_nonneg[of "vp_vulnerabilities p"]
        total_deduction_tenths[of "vp_vulnerabilities p"]
      show ?thesis by (auto simp: max_def)
    next
      case err
      with s show ?thesis by (simp add: published_score_def)
    next
      case failed
      with s show ?thesis by (simp add: published_score_def)
    qed
    then show "0 \<le> s" "s \<le> 10" "s * 10 \<in> \<int>" by simp_all
  qed
qed

lemma worst_case_deductions:
  "total_deduction
     (findings_of
        (scan_vulnerabilities (const_env (Response worst_response)) ''example.com'' ''deep'')) =
   12"
  by code_simp

theorem vulnerability_score_witness:
  "published_score
     (scan_vulnerabilities (const_env (Response worst_response)) ''example.com'' ''deep'') =
   Some 0 \<and>
   total_deduction
     (findings_of
        (scan_vulnerabilities (const_env (Response worst_response)) ''example.com'' ''deep'')) =
   12 \<and>
   mset (findings_of
           (scan_vulnerabilities (const_env (Response worst_response)) ''example.com'' ''light''))
     \<subseteq># mset (findings_of
           (scan_vulnerabilities (const_env (Response worst_response)) ''example.com'' ''deep''))"
proof -
  let ?e = "const_env (Response worst_response)"
  have get: "requests_get10 ?e (request_url ''example.com'') = Response worst_response"
    by (simp add: const_env_def)
  obtain pd where pd: "scan_vulnerabilities ?e ''example.com'' ''deep'' = VulnOk pd"
    using scan_report[OF get] by blast
  obtain pl where pl: "scan_vulnerabilities ?e ''example.com'' ''light'' = VulnOk pl"
    using scan_report[OF get] by blast
  have sub: "mset (vp_vulnerabilities pl) \<subseteq># mset (vp_vulnerabilities pd)"
    using prefix_mset_subset[OF findings_prefix_light_deep[of ?e "''example.com''"]]
    by (simp add: pd pl findings_of_def)
  have td: "total_deduction (vp_vulnerabilities pd) = 12"
    using worst_case_deductions by (simp add: pd findings_of_def)
  from vulnerability_score[of ?e "''example.com''" "''deep''"] pd
  have "vp_security_score pd =
          py_round1 (max 0 (10 - total_deduction (vp_vulnerabilities pd)))"
    by blast
  then have zero: "vp_security_score pd = 0"
    by (simp add: td py_round1_zero)
  from vulnerability_score[of ?e "''example.com''" "''light''"] pl pd sub
  have "vp_security_score pd \<le> vp_security_score pl"
    by blast
  from zero worst_case_deductions sub show ?thesis
    by (simp add: pd pl published_score_def findings_of_def)
qed

section \<open>The Vulnerability Probe: scan depth and failures\<close>

text \<open>
  C4. On the same network, the findings at depth \<open>light\<close> are the first findings at
  depth \<open>medium\<close>, and those are the first findings at depth \<open>deep\<close>; when the
  baseline GET returns a response, the deeper run also makes every deduction of the
  shallower one, and beyond them only the deductions of the findings it adds.
\<close>

theorem scan_depth_superset:
  "prefix (findings_of (scan_vulnerabilities e u ''light''))
     (findings_of (scan_vulnerabilities e u ''medium'')) \<and>
   prefix (findings_of (scan_vulnerabilities e u ''medium''))
     (findings_of (scan_vulnerabilities e u ''deep'')) \<and>
   (\<forall>r. requests_get10 e (request_url u) = Response r \<longrightarrow>
        extends (run_checks e (request_url u) ''light'' r)
          (run_checks e (request_url u) ''medium'' r) \<and>
        extends (run_checks e (request_url u) ''medium'' r)
          (run_checks e (request_url u) ''deep'' r))"
proof (cases "requests_get10 e (request_url u)")
  case (Response r)
  have lm: "extends (run_checks e (request_url u) ''light'' r)
              (run_checks e (request_url u) ''medium'' r)"
    by (rule light_medium_extends)
  have md: "extends (run_checks e (request_url u) ''medium'' r)
              (run_checks e (request_url u) ''deep'' r)"
    by (rule medium_deep_extends)
  from lm md show ?thesis
    by (simp add: scan_report[OF Response] Response findings_of_def extends_def)
next
  case (RequestException msg)
  then show ?thesis by (simp add: scan_vulnerabilities_def findings_of_def)
next
  case (OtherException msg)
  then show ?thesis by (simp add: scan_vulnerabilities_def findings_of_def)
qed

lemma worst_case_counts:
  "length (findings_of
     (scan_vulnerabilities (const_env (Response worst_response)) ''example.com'' ''light'')) = 7 \<and>
   length (findings_of
     (scan_vulnerabilities (const_env (Response worst_response)) ''example.com'' ''medium'')) = 12 \<and>
   length (findings_of
     (scan_vulnerabilities (const_env (Response worst_response)) ''example.com'' ''deep'')) = 15"
  by code_simp

theorem scan_depth_superset_witness:
  "requests_get10 (const_env (Response worst_response)) (request_url ''example.com'') =
     Response worst_response \<and>
   prefix
     (findings_of
        (scan_vulnerabilities (const_env (Response worst_response)) ''example.com'' ''light''))
     (findings_of
        (scan_vulnerabilities (const_env (Response worst_response)) ''example.com'' ''medium'')) \<and>
   prefix
     (findings_of
        (scan_vulnerabilities (const_env (Response worst_response)) ''example.com'' ''medium''))
     (findings_of
        (scan_vulnerabilities (const_env (Response worst_response)) ''example.com'' ''deep'')) \<and>
   extends
     (run_checks (const_env (Response worst_response)) (request_url ''example.com'') ''light''
        worst_response)
     (run_checks (const_env (Response worst_response)) (request_url ''example.com'') ''medium''
        worst_response) \<and>
   extends
     (run_checks (const_env (Response worst_response)) (request_url ''example.com'') ''medium''
        worst_response)
     (run_checks (const_env (Response worst_response)) (request_url ''example.com'') ''deep''
        worst_response)"
proof -
  have get: "requests_get10 (const_env (Response worst_response)) (request_url ''example.com'') =
               Response worst_response"
    by (simp add: const_env_def)
  from scan_depth_superset[of "const_env (Response worst_response)" "''example.com''"] get
  show ?thesis by blast
qed

text \<open>
  A supplementary request that fails leaves the state of the scan as it is, which is
  also what a blank response does.
\<close>

lemma check_path_failed:
  "\<not> is_response (requests_get5 e (url @ path)) \<Longrightarrow> check_path e url path st = st"
  by (cases st) (auto simp: check_path_def is_response_def split: outcome.splits)

lemma check_directory_listing_failed:
  "\<not> is_response (requests_get5 e (rstrip CHR ''/'' url @ ''/'')) \<Longrightarrow>
   check_directory_listing e url st = st"
  by (cases st) (auto simp: check_directory_listing_def is_response_def split: outcome.splits)

lemma check_options_failed:
  "\<not> is_response (requests_options e url) \<Longrightarrow> check_options e url st = st"
  by (auto simp: check_options_def is_response_def split: outcome.splits)

lemma check_path_get5_blank:
  assumes "\<not> is_response (requests_get5 e x)"
  shows "check_path (e\<lparr>requests_get5 := (requests_get5 e)(x := Response blank_response)\<rparr>)
           url path st =
         check_path e url path st"
  using assms
  by (cases st; cases "url @ path = x")
     (auto simp: check_path_def is_response_def blank_response_def split: outcome.splits)

lemma check_paths_get5_blank:
  assumes "\<not> is_response (requests_get5 e x)"
  shows "check_paths (e\<lparr>requests_get5 := (requests_get5 e)(x := Response blank_response)\<rparr>)
           url paths st =
         check_paths e url paths st"
  by (induction paths arbitrary: st) (simp_all add: check_path_get5_blank[OF assms])

lemma check_directory_listing_get5_blank:
  assumes "\<not> is_response (requests_get5 e x)"
  shows "check_directory_listing
           (e\<lparr>requests_get5 := (requests_get5 e)(x := Response blank_response)\<rparr>) url st =
         check_directory_listing e url st"
  using assms
  by (cases st; cases "rstrip CHR ''/'' url @ ''/'' = x")
     (auto simp: check_directory_listing_def is_response_def blank_response_def lower_def
           split: outcome.splits)

lemma check_options_get5: "check_options (e\<lparr>requests_get5 := g\<rparr>) url st = check_options e url st"
  by (simp add: check_options_def)

lemma check_options_blank:
  assumes "\<not> is_response (requests_options e x)"
  shows "check_options
           (e\<lparr>requests_options := (requests_options e)(x := Response blank_response)\<rparr>) url st =
         check_options e url st"
  using assms
  by (cases "url = x")
     (auto simp: check_options_def is_response_def blank_response_def split: outcome.splits)

lemma check_path_options: "check_path (e\<lparr>requests_options := g\<rparr>) url path st = check_path e url path st"
  by (simp add: check_path_def)

lemma check_paths_options:
  "check_paths (e\<lparr>requests_options := g\<rparr>) url paths st = check_paths e url paths st"
  by (induction paths arbitrary: st) (simp_all add: check_path_options)

lemma check_directory_listing_options:
  "check_directory_listing (e\<lparr>requests_options := g\<rparr>) url st =
   check_directory_listing e url st"
  by (simp add: check_directory_listing_def)

lemma run_checks_get5_blank:
  assumes "\<not> is_response (requests_get5 e x)"
  shows "run_checks (e\<lparr>requests_get5 := (requests_get5 e)(x := Response blank_response)\<rparr>)
           url d r =
         run_checks e url d r"
  by (simp add: run_checks_def Let_def check_options_get5
        check_paths_get5_blank[OF assms] check_directory_listing_get5_blank[OF assms])

lemma run_checks_options_blank:
  assumes "\<not> is_response (requests_options e x)"
  shows "run_checks
           (e\<lparr>requests_options := (requests_options e)(x := Response blank_response)\<rparr>)
           url d r =
         run_checks e url d r"
  by (simp add: run_checks_def Let_def check_paths_options
        check_directory_listing_options check_options_blank[OF assms])

lemma scan_get5_blank:
  assumes "\<not> is_response (requests_get5 e x)"
  shows "scan_vulnerabilities
           (e\<lparr>requests_get5 := (requests_get5 e)(x := Response blank_response)\<rparr>) u d =
         scan_vulnerabilities e u d"
  by (cases "requests_get10 e (request_url u)")
     (simp_all add: scan_vulnerabilities_def run_checks_get5_blank[OF assms])

lemma scan_options_blank:
  assumes "\<not> is_response (requests_options e x)"
  shows "scan_vulnerabilities
           (e\<lparr>requests_options := (requests_options e)(x := Response blank_response)\<rparr>) u d =
         scan_vulnerabilities e u d"
  by (cases "requests_get10 e (request_url u)")
     (simp_all add: scan_vulnerabilities_def run_checks_options_blank[OF assms])

text \<open>
  An exception of the baseline GET that is not a \<open>requests.RequestException\<close> passes
  the inner handler and is caught by the outer one, which returns the error alone. The
  HTTP client raises such an exception for a host with a label of more than 63
  characters, so the claim as the specification words it (any failure of the baseline
  GET gives the dictionary with \<open>vulnerabilities\<close> and \<open>score\<close>) fails there: the
  result has neither.
\<close>

lemma baseline_other_exception:
  "requests_get10 e (request_url u) = OtherException msg \<Longrightarrow>
   scan_vulnerabilities e u d = VulnFailed (''Vulnerability scan failed: '' @ msg)"
  by (simp add: scan_vulnerabilities_def)

theorem baseline_failure_payload_counterexample:
  "scan_vulnerabilities (const_env (OtherException ''label empty or too long''))
     long_label_host ''light'' =
     VulnFailed ''Vulnerability scan failed: label empty or too long'' \<and>
   published_score
     (scan_vulnerabilities (const_env (OtherException ''label empty or too long''))
        long_label_host ''light'') = None"
proof -
  have "requests_get10 (const_env (OtherException ''label empty or too long''))
          (request_url long_label_host) = OtherException ''label empty or too long''"
    by (simp add: const_env_def)
  from baseline_other_exception[OF this, of "''light''"] show ?thesis
    by (simp add: published_score_def)
qed

text \<open>
  C5, as amended. When the baseline GET raises \<open>requests.RequestException\<close>, the probe
  returns the dictionary with the error message, no vulnerabilities and score 0.0; when
  it raises anything else, the probe returns the dictionary with the error message alone;
  neither is raised to the caller. When the baseline GET returns a response, the probe
  returns a report whatever the supplementary requests do. A sensitive-path GET, the
  directory-listing GET or the OPTIONS request that fails leaves the findings and the
  score as they were, and the whole scan returns what it returns when that request is
  answered by a blank response.
\<close>

theorem failures_are_contained:
  "(requests_get10 e (request_url u) = RequestException msg \<longrightarrow>
      scan_vulnerabilities e u d =
        VulnConnectError (''Could not connect to '' @ request_url u @ '': '' @ msg) [] 0) \<and>
   (requests_get10 e (request_url u) = OtherException msg \<longrightarrow>
      scan_vulnerabilities e u d = VulnFailed (''Vulnerability scan failed: '' @ msg)) \<and>
   (requests_get10 e (request_url u) = Response r \<longrightarrow>
      is_report (scan_vulnerabilities e u d)) \<and>
   (\<not> is_response (requests_get5 e (url @ path)) \<longrightarrow> check_path e url path st = st) \<and>
   (\<not> is_response (requests_get5 e (rstrip CHR ''/'' url @ ''/'')) \<longrightarrow>
      check_directory_listing e url st = st) \<and>
   (\<not> is_response (requests_options e url) \<longrightarrow> check_options e url st = st) \<and>
   (\<not> is_response (requests_get5 e x) \<longrightarrow>
      scan_vulnerabilities e u d =
        scan_vulnerabilities
          (e\<lparr>requests_get5 := (requests_get5 e)(x := Response blank_response)\<rparr>) u d) \<and>
   (\<not> is_response (requests_options e x) \<longrightarrow>
      scan_vulnerabilities e u d =
        scan_vulnerabilities
          (e\<lparr>requests_options := (requests_options e)(x := Response blank_response)\<rparr>) u d)"
proof (intro conjI impI)
  assume "requests_get10 e (request_url u) = RequestException msg"
  then show "scan_vulnerabilities e u d =
               VulnConnectError (''Could not connect to '' @ request_url u @ '': '' @ msg) [] 0"
    by (simp add: scan_vulnerabilities_def)
next
  assume "requests_get10 e (request_url u) = OtherException msg"
  then show "scan_vulnerabilities e u d = VulnFailed (''Vulnerability scan failed: '' @ msg)"
    by (rule baseline_other_exception)
next
  assume "requests_get10 e (request_url u) = Response r"
  from scan_report[OF this, of d] show "is_report (scan_vulnerabilities e u d)"
    by (simp add: is_report_def)
next
  assume "\<not> is_response (requests_get5 e (url @ path))"
  then show "check_path e url path st = st" by (rule check_path_failed)
next
  assume "\<not> is_response (requests_get5 e (rstrip CHR ''/'' url @ ''/''))"
  then show "check_directory_listing e url st = st" by (rule check_directory_listing_failed)
next
  assume "\<not> is_response (requests_options e url)"
  then show "check_options e url st = st" by (rule check_options_failed)
next
  assume "\<not> is_response (requests_get5 e x)"
  then show "scan_vulnerabilities e u d =
               scan_vulnerabilities
                 (e\<lparr>requests_get5 := (requests_get5 e)(x := Response blank_response)\<rparr>) u d"
    by (simp add: scan_get5_blank)
next
  assume "\<not> is_response (requests_options e x)"
  then show "scan_vulnerabilities e u d =
               scan_vulnerabilities
                 (e\<lparr>requests_options := (requests_options e)(x := Response blank_response)\<rparr>) u d"
    by (simp add: scan_options_blank)
qed

lemma supplementary_down_findings:
  "findings_of (scan_vulnerabilities (supplementary_down worst_response) ''example.com'' ''deep'') =
   findings_of (scan_vulnerabilities (supplementary_down worst_response) ''example.com'' ''light'')"
  by code_simp

theorem failures_are_contained_witness:
  "scan_vulnerabilities (const_env (RequestException ''Connection refused'')) ''example.com''
     ''deep'' =
     VulnConnectError ''Could not connect to https://example.com: Connection refused'' [] 0 \<and>
   scan_vulnerabilities (const_env (OtherException ''label empty or too long''))
     long_label_host ''deep'' =
     VulnFailed ''Vulnerability scan failed: label empty or too long'' \<and>
   is_report (scan_vulnerabilities (supplementary_down worst_response) ''example.com'' ''deep'') \<and>
   check_path (supplementary_down worst_response) ''https://example.com'' ''/admin'' ([], 10) =
     ([], 10) \<and>
   check_directory_listing (supplementary_down worst_response) ''https://example.com'' ([], 10) =
     ([], 10) \<and>
   check_options (supplementary_down worst_response) ''https://example.com'' ([], 10) =
     ([], 10) \<and>
   scan_vulnerabilities (supplementary_down worst_response) ''example.com'' ''deep'' =
     scan_vulnerabilities
       ((supplementary_down worst_response)
          \<lparr>requests_get5 :=
             (requests_get5 (supplementary_down worst_response))
               (''https://example.com/.env'' := Response blank_response)\<rparr>)
       ''example.com'' ''deep'' \<and>
   scan_vulnerabilities (supplementary_down worst_response) ''example.com'' ''deep'' =
     scan_vulnerabilities
       ((supplementary_down worst_response)
          \<lparr>requests_options :=
             (requests_options (supplementary_down worst_response))
               (''https://example.com'' := Response blank_response)\<rparr>)
       ''example.com'' ''deep''"
proof -
  let ?down = "supplementary_down worst_response"
  have refused:
    "requests_get10 (const_env (RequestException ''Connection refused''))
       (request_url ''example.com'') = RequestException ''Connection refused''"
    by (simp add: const_env_def)
  have url: "request_url ''example.com'' = ''https://example.com''"
    by (simp add: request_url_def)
  have answered: "requests_get10 ?down (request_url ''example.com'') = Response worst_response"
    by (simp add: supplementary_down_def)
  have get5: "\<not> is_response (requests_get5 ?down y)" for y
    by (simp add: supplementary_down_def is_response_def)
  have opts: "\<not> is_response (requests_options ?down y)" for y
    by (simp add: supplementary_down_def is_response_def)
  from failures_are_contained[of "const_env (RequestException ''Connection refused'')"
      "''example.com''" "''Connection refused''" "''deep''"] refused
  have a: "scan_vulnerabilities (const_env (RequestException ''Connection refused''))
             ''example.com'' ''deep'' =
           VulnConnectError ''Could not connect to https://example.com: Connection refused'' [] 0"
    by (simp add: url)
  have other:
    "requests_get10 (const_env (OtherException ''label empty or too long''))
       (request_url long_label_host) = OtherException ''label empty or too long''"
    by (simp add: const_env_def)
  from failures_are_contained[of "const_env (OtherException ''label empty or too long'')"
      long_label_host "''label empty or too long''" "''deep''"] other
  have a': "scan_vulnerabilities (const_env (OtherException ''label empty or too long''))
              long_label_host ''deep'' =
            VulnFailed ''Vulnerability scan failed: label empty or too long''"
    by simp
  from failures_are_contained[of ?down "''example.com''" _ "''deep''" worst_response
      "''https://example.com''" "''/admin''" "([], 10)" "''https://example.com/.env''"]
    answered get5 opts
  have b: "is_report (scan_vulnerabilities ?down ''example.com'' ''deep'')"
    and c: "check_path ?down ''https://example.com'' ''/admin'' ([], 10) = ([], 10)"
    and d: "check_directory_listing ?down ''https://example.com'' ([], 10) = ([], 10)"
    and f: "check_options ?down ''https://example.com'' ([], 10) = ([], 10)"
    and g: "scan_vulnerabilities ?down ''example.com'' ''deep'' =
            scan_vulnerabilities
              (?down\<lparr>requests_get5 :=
                 (requests_get5 ?down)(''https://example.com/.env'' := Response blank_response)\<rparr>)
              ''example.com'' ''deep''"
    by blast+
  from failures_are_contained[of ?down "''example.com''" _ "''deep''" _ _ _ _
      "''https://example.com''"] opts
  have h: "scan_vulnerabilities ?down ''example.com'' ''deep'' =
           scan_vulnerabilities
             (?down\<lparr>requests_options :=
                (requests_options ?down)(''https://example.com'' := Response blank_response)\<rparr>)
             ''example.com'' ''deep''"
    by blast
  from a a' b c d f g h show ?thesis by blast
qed

text \<open>
  C10. A scan depth other than \<open>medium\<close> and \<open>deep\<close> is not rejected: the probe returns
  what it returns at depth \<open>light\<close>, with the depth it was given echoed; when the
  baseline GET returns a response this is a report made of the baseline checks alone.
\<close>

theorem unknown_depth_is_light:
  assumes "d \<noteq> ''medium''" and "d \<noteq> ''deep''"
  shows "scan_vulnerabilities e u d = with_scan_depth d (scan_vulnerabilities e u ''light'') \<and>
         (\<forall>r. requests_get10 e (request_url u) = Response r \<longrightarrow>
              scan_vulnerabilities e u d =
                VulnOk
                  \<lparr>vp_url = request_url u,
                   vp_scan_depth = d,
                   vp_vulnerabilities = fst (baseline_checks r ([], 10)),
                   vp_vulnerability_count = length (fst (baseline_checks r ([], 10))),
                   vp_security_score = py_round1 (max 0 (snd (baseline_checks r ([], 10)))),
                   vp_risk_level = risk_level_of (max 0 (snd (baseline_checks r ([], 10)))),
                   vp_scan_timestamp = now e\<rparr>)"
proof (cases "requests_get10 e (request_url u)")
  case (Response r)
  from assms show ?thesis
    by (simp add: scan_report[OF Response] Response run_checks_other run_checks_light
          with_scan_depth_def)
next
  case (RequestException msg)
  then show ?thesis by (simp add: scan_vulnerabilities_def with_scan_depth_def)
next
  case (OtherException msg)
  then show ?thesis by (simp add: scan_vulnerabilities_def with_scan_depth_def)
qed

lemma extreme_depth_counts:
  "length (findings_of
     (scan_vulnerabilities (const_env (Response worst_response)) ''example.com'' ''extreme'')) = 7 \<and>
   length (findings_of
     (scan_vulnerabilities (const_env (Response worst_response)) ''example.com'' '''')) = 7"
  by code_simp

theorem unknown_depth_is_light_witness:
  "''extreme'' \<noteq> ''medium'' \<and> ''extreme'' \<noteq> ''deep'' \<and>
   requests_get10 (const_env (Response worst_response)) (request_url ''example.com'') =
     Response worst_response \<and>
   scan_vulnerabilities (const_env (Response worst_response)) ''example.com'' ''extreme'' =
     with_scan_depth ''extreme''
       (scan_vulnerabilities (const_env (Response worst_response)) ''example.com'' ''light'') \<and>
   scan_vulnerabilities (const_env (Response worst_response)) ''example.com'' '''' =
     with_scan_depth ''''
       (scan_vulnerabilities (const_env (Response worst_response)) ''example.com'' ''light'') \<and>
   is_report
     (scan_vulnerabilities (const_env (Response worst_response)) ''example.com'' ''extreme'')"
proof -
  let ?e = "const_env (Response worst_response)"
  have m: "''extreme'' \<noteq> ''medium''" and dp: "''extreme'' \<noteq> ''deep''" by simp_all
  have m': "'''' \<noteq> ''medium''" and dp': "'''' \<noteq> ''deep''" by simp_all
  have get: "requests_get10 ?e (request_url ''example.com'') = Response worst_response"
    by (simp add: const_env_def)
  note inst = unknown_depth_is_light[OF m dp, of ?e "''example.com''"]
  from inst
  have a: "scan_vulnerabilities ?e ''example.com'' ''extreme'' =
             with_scan_depth ''extreme'' (scan_vulnerabilities ?e ''example.com'' ''light'')"
    by (rule conjunct1)
  from inst get obtain p where "scan_vulnerabilities ?e ''example.com'' ''extreme'' = VulnOk p"
    by blast
  then have b: "is_report (scan_vulnerabilities ?e ''example.com'' ''extreme'')"
    by (simp add: is_report_def)
  from unknown_depth_is_light[OF m' dp', of ?e "''example.com''"]
  have c: "scan_vulnerabilities ?e ''example.com'' '''' =
             with_scan_depth '''' (scan_vulnerabilities ?e ''example.com'' ''light'')"
    by (rule conjunct1)
  from m dp get a b c show ?thesis by blast
qed

section \<open>The Port Probe\<close>

lemma connect_ports_partition:
  assumes "\<forall>port \<in> set ps. conn port = Connected \<or> conn port = SocketError"
  shows "connect_ports conn ps (open_ports, closed_ports) =
           Inr (open_ports @ filter (\<lambda>port. conn port = Connected) ps,
                closed_ports @ filter (\<lambda>port. conn port = SocketError) ps)"
  using assms
proof (induction ps arbitrary: open_ports closed_ports)
  case Nil
  show ?case by simp
next
  case (Cons port ps)
  then have rest: "\<forall>q \<in> set ps. conn q = Connected \<or> conn q = SocketError"
    and here: "conn port = Connected \<or> conn port = SocketError"
    by simp_all
  from here show ?case
  proof
    assume "conn port = Connected"
    then show ?thesis by (simp add: Cons.IH[OF rest])
  next
    assume "conn port = SocketError"
    then show ?thesis by (simp add: Cons.IH[OF rest])
  qed
qed

lemma security_concerns_members:
  "(sftp_concern \<in> set (security_concerns ops)) = (21 \<in> set ops)"
  "(telnet_concern \<in> set (security_concerns ops)) = (23 \<in> set ops)"
  "(no_https_concern \<in> set (security_concerns ops)) = (80 \<in> set ops \<and> 443 \<notin> set ops)"
  by (simp_all add: security_concerns_def sftp_concern_def telnet_concern_def
        no_https_concern_def)

lemma security_concerns_empty:
  "21 \<notin> set ops \<Longrightarrow> 23 \<notin> set ops \<Longrightarrow> 443 \<in> set ops \<Longrightarrow> security_concerns ops = []"
  by (simp add: security_concerns_def)

text \<open>
  C9. The scanned list is the caller's port list when one is given and it is not empty,
  and the thirteen default ports otherwise. When every connection attempt to a scanned
  port ends open or closed, the probe returns a report in which \<open>open_ports\<close> and
  \<open>closed_ports\<close> are the ports of the scanned list that connected and those that did
  not, each in the order of that list; \<open>security_concerns\<close> holds the SFTP
  recommendation exactly when 21 is in \<open>open_ports\<close>, the Telnet flag exactly when 23
  is, and the no-HTTPS flag exactly when 80 is and 443 is not; and it is empty when 21
  and 23 are not in \<open>open_ports\<close> and 80 and 443 are.
\<close>

theorem scan_ports_report:
  assumes "ports = Some scanned \<and> scanned \<noteq> [] \<or>
           (ports = None \<or> ports = Some []) \<and>
           scanned = [21, 22, 23, 25, 53, 80, 110, 143, 443, 993, 995, 8080, 8443]"
    and "\<forall>port \<in> set scanned.
           create_connection (clean_url url) port = Connected \<or>
           create_connection (clean_url url) port = SocketError"
  shows "\<exists>p. scan_ports create_connection ts url ports = PortsOk p \<and>
             pp_domain p = clean_url url \<and>
             pp_open_ports p =
               filter (\<lambda>port. create_connection (clean_url url) port = Connected) scanned \<and>
             pp_closed_ports p =
               filter (\<lambda>port. create_connection (clean_url url) port = SocketError) scanned \<and>
             pp_total_scanned p = length scanned \<and>
             (sftp_concern \<in> set (pp_security_concerns p)) = (21 \<in> set (pp_open_ports p)) \<and>
             (telnet_concern \<in> set (pp_security_concerns p)) = (23 \<in> set (pp_open_ports p)) \<and>
             (no_https_concern \<in> set (pp_security_concerns p)) =
               (80 \<in> set (pp_open_ports p) \<and> 443 \<notin> set (pp_open_ports p)) \<and>
             (21 \<notin> set (pp_open_ports p) \<and> 23 \<notin> set (pp_open_ports p) \<and>
              80 \<in> set (pp_open_ports p) \<and> 443 \<in> set (pp_open_ports p) \<longrightarrow>
                pp_security_concerns p = [])"
proof -
  from assms(1) have scanned: "ports_to_scan ports = scanned"
    by (auto simp: ports_to_scan_def default_ports_def)
  have "connect_ports (create_connection (clean_url url)) scanned ([], []) =
          Inr ([] @ filter (\<lambda>port. create_connection (clean_url url) port = Connected) scanned,
               [] @ filter (\<lambda>port. create_connection (clean_url url) port = SocketError) scanned)"
    by (rule connect_ports_partition[OF assms(2)])
  then show ?thesis
    by (simp add: scan_ports_def Let_def scanned security_concerns_members
          security_concerns_empty)
qed

lemma web_host_report:
  "scan_ports (host_with [80, 443]) ''2025-01-01T00:00:00+00:00'' ''Example.com'' None =
     PortsOk
       \<lparr>pp_domain = ''example.com'',
        pp_open_ports = [80, 443],
        pp_closed_ports = [21, 22, 23, 25, 53, 110, 143, 993, 995, 8080, 8443],
        pp_total_scanned = 13,
        pp_security_concerns = [],
        pp_scan_timestamp = ''2025-01-01T00:00:00+00:00''\<rparr>"
  by code_simp

lemma http_only_host_concerns:
  "scan_ports (host_with [80]) ''2025-01-01T00:00:00+00:00'' ''example.com''
     (Some [443, 80, 21]) =
     PortsOk
       \<lparr>pp_domain = ''example.com'',
        pp_open_ports = [80],
        pp_closed_ports = [443, 21],
        pp_total_scanned = 3,
        pp_security_concerns = [''Only HTTP (port 80) available - no HTTPS''],
        pp_scan_timestamp = ''2025-01-01T00:00:00+00:00''\<rparr>"
  by code_simp

lemma empty_list_scans_defaults:
  "scan_ports (host_with [80, 443]) ''2025-01-01T00:00:00+00:00'' ''Example.com'' (Some []) =
   scan_ports (host_with [80, 443]) ''2025-01-01T00:00:00+00:00'' ''Example.com'' None"
  by code_simp

theorem scan_ports_report_witness:
  "(\<exists>p. scan_ports (host_with [80]) ''2025-01-01T00:00:00+00:00'' ''Example.com''
           (Some [443, 80, 21]) = PortsOk p \<and>
        pp_open_ports p = [80] \<and> pp_closed_ports p = [443, 21] \<and>
        pp_total_scanned p = 3 \<and>
        no_https_concern \<in> set (pp_security_concerns p) \<and>
        sftp_concern \<notin> set (pp_security_concerns p)) \<and>
   (\<exists>p. scan_ports (host_with [80, 443]) ''2025-01-01T00:00:00+00:00'' ''Example.com''
           None = PortsOk p \<and>
        pp_open_ports p = [80, 443] \<and>
        pp_closed_ports p = [21, 22, 23, 25, 53, 110, 143, 993, 995, 8080, 8443] \<and>
        pp_total_scanned p = 13 \<and>
        pp_security_concerns p = [])"
proof -
  let ?defaults = "[21, 22, 23, 25, 53, 80, 110, 143, 443, 993, 995, 8080, 8443] :: int list"
  have given: "Some [443, 80, 21] = Some [443, 80, 21 :: int] \<and> [443, 80, 21 :: int] \<noteq> [] \<or>
               (Some [443, 80, 21] = None \<or> Some [443, 80, 21 :: int] = Some []) \<and>
               [443, 80, 21] = ?defaults"
    by simp
  have given_ok: "\<forall>port \<in> set [443, 80, 21].
                    host_with [80] (clean_url ''Example.com'') port = Connected \<or>
                    host_with [80] (clean_url ''Example.com'') port = SocketError"
    by (simp add: host_with_def)
  have omitted: "(None :: int list option) = Some ?defaults \<and> ?defaults \<noteq> [] \<or>
                 ((None :: int list option) = None \<or> (None :: int list option) = Some []) \<and>
                 ?defaults = ?defaults"
    by simp
  have omitted_ok: "\<forall>port \<in> set ?defaults.
                      host_with [80, 443] (clean_url ''Example.com'') port = Connected \<or>
                      host_with [80, 443] (clean_url ''Example.com'') port = SocketError"
    by (simp add: host_with_def)
  have first: "\<exists>p. scan_ports (host_with [80]) ''2025-01-01T00:00:00+00:00'' ''Example.com''
                     (Some [443, 80, 21]) = PortsOk p \<and>
                  pp_open_ports p = [80] \<and> pp_closed_ports p = [443, 21] \<and>
                  pp_total_scanned p = 3 \<and>
                  no_https_concern \<in> set (pp_security_concerns p) \<and>
                  sftp_concern \<notin> set (pp_security_concerns p)"
    using scan_ports_report[where create_connection = "host_with [80]"
        and url = "''Example.com''" and ports = "Some [443, 80, 21]"
        and scanned = "[443, 80, 21]"
        and ts = "''2025-01-01T00:00:00+00:00''", OF given given_ok]
    by (auto simp: host_with_def)
  have second: "\<exists>p. scan_ports (host_with [80, 443]) ''2025-01-01T00:00:00+00:00''
                      ''Example.com'' None = PortsOk p \<and>
                   pp_open_ports p = [80, 443] \<and>
                   pp_closed_ports p = [21, 22, 23, 25, 53, 110, 143, 993, 995, 8080, 8443] \<and>
                   pp_total_scanned p = 13 \<and>
                   pp_security_concerns p = []"
    using scan_ports_report[where create_connection = "host_with [80, 443]"
        and url = "''Example.com''" and ports = None
        and scanned = ?defaults
        and ts = "''2025-01-01T00:00:00+00:00''", OF omitted omitted_ok]
    by (auto simp: host_with_def)
  from first second show ?thesis by (rule conjI)
qed

section \<open>The DNS Probe\<close>

lemma scan_txt_flags:
  "scan_txt recs (spf_found, dmarc_found) =
     (spf_found \<or> list_ex (prefix (CHR 0x22 # ''v=spf1'')) recs,
      dmarc_found \<or> list_ex (prefix (CHR 0x22 # ''v=DMARC1'')) recs)"
  by (induction recs arbitrary: spf_found dmarc_found) auto

lemma resolved_txt:
  "dns_get (resolve_records resolve record_types []) ''TXT'' =
     (case resolve ''TXT'' of
        Answers answers \<Rightarrow> answers
      | NoAnswer \<Rightarrow> []
      | ResolveError \<Rightarrow> [''Error resolving''])"
  by (simp add: record_types_def dns_get_def)

text \<open>
  C8. When the resolver answers the TXT query for the normalised domain with the records
  \<open>recs\<close>, \<open>spf_configured\<close> says whether some record starts with \<open>"v=spf1\<close> and
  \<open>dmarc_configured\<close> whether some record starts with \<open>"v=DMARC1\<close>; the missing-SPF
  issue is among \<open>security_issues\<close> exactly when \<open>spf_configured\<close> is false, and the
  missing-DMARC issue exactly when \<open>dmarc_configured\<close> is false.
\<close>

theorem analyze_dns_email_flags:
  assumes "resolve (clean_url request_domain) ''TXT'' = Answers recs"
  shows "dp_domain (analyze_dns resolve ts request_domain) = clean_url request_domain \<and>
         dp_spf_configured (analyze_dns resolve ts request_domain) =
           (\<exists>t \<in> set recs. prefix (CHR 0x22 # ''v=spf1'') t) \<and>
         dp_dmarc_configured (analyze_dns resolve ts request_domain) =
           (\<exists>t \<in> set recs. prefix (CHR 0x22 # ''v=DMARC1'') t) \<and>
         (spf_issue \<in> set (dp_security_issues (analyze_dns resolve ts request_domain))) =
           (\<not> dp_spf_configured (analyze_dns resolve ts request_domain)) \<and>
         (dmarc_issue \<in> set (dp_security_issues (analyze_dns resolve ts request_domain))) =
           (\<not> dp_dmarc_configured (analyze_dns resolve ts request_domain))"
proof -
  have dom: "(let domain = lower (strip request_domain);
                  domain = remove_all ''https://'' (remove_all ''http://'' domain)
              in if contains ''/'' domain then hd (split ''/'' domain) else domain) =
             clean_url request_domain"
    by (simp add: clean_url_def Let_def)
  have got: "dns_get (resolve_records (resolve (clean_url request_domain)) record_types [])
               ''TXT'' = recs"
    by (simp add: resolved_txt assms)
  show ?thesis
    using dom got
    by (simp add: analyze_dns_def Let_def scan_txt_flags list_ex_iff spf_issue_def
          dmarc_issue_def split: prod.splits)
qed

lemma spf_without_dmarc:
  "dp_spf_configured
     (analyze_dns (txt_only [CHR 0x22 # ''v=spf1 include:_spf.example.com ~all'' @ [CHR 0x22]])
        ''2025-01-01T00:00:00+00:00'' ''example.com'') \<and>
   \<not> dp_dmarc_configured
     (analyze_dns (txt_only [CHR 0x22 # ''v=spf1 include:_spf.example.com ~all'' @ [CHR 0x22]])
        ''2025-01-01T00:00:00+00:00'' ''example.com'') \<and>
   dp_security_issues
     (analyze_dns (txt_only [CHR 0x22 # ''v=spf1 include:_spf.example.com ~all'' @ [CHR 0x22]])
        ''2025-01-01T00:00:00+00:00'' ''example.com'') =
   [''No DMARC record found - email authentication policy missing'']"
  by code_simp

theorem analyze_dns_email_flags_witness:
  "txt_only [CHR 0x22 # ''v=spf1 include:_spf.example.com ~all'' @ [CHR 0x22]]
     (clean_url ''example.com'') ''TXT'' =
     Answers [CHR 0x22 # ''v=spf1 include:_spf.example.com ~all'' @ [CHR 0x22]] \<and>
   dmarc_issue \<in> set (dp_security_issues
     (analyze_dns (txt_only [CHR 0x22 # ''v=spf1 include:_spf.example.com ~all'' @ [CHR 0x22]])
        ''2025-01-01T00:00:00+00:00'' ''example.com'')) \<and>
   spf_issue \<notin> set (dp_security_issues
     (analyze_dns (txt_only [CHR 0x22 # ''v=spf1 include:_spf.example.com ~all'' @ [CHR 0x22]])
        ''2025-01-01T00:00:00+00:00'' ''example.com''))"
proof -
  let ?recs = "[CHR 0x22 # ''v=spf1 include:_spf.example.com ~all'' @ [CHR 0x22]]"
  have answers: "txt_only ?recs (clean_url ''example.com'') ''TXT'' = Answers ?recs"
    by (simp add: txt_only_def)
  have spf: "\<exists>t \<in> set ?recs. prefix (CHR 0x22 # ''v=spf1'') t" by simp
  have dmarc: "\<not> (\<exists>t \<in> set ?recs. prefix (CHR 0x22 # ''v=DMARC1'') t)" by simp
  from analyze_dns_email_flags[where resolve = "txt_only ?recs"
      and request_domain = "''example.com''" and recs = ?recs
      and ts = "''2025-01-01T00:00:00+00:00''", OF answers] spf dmarc
  have "dmarc_issue \<in> set (dp_security_issues
          (analyze_dns (txt_only ?recs) ''2025-01-01T00:00:00+00:00'' ''example.com''))"
    and "spf_issue \<notin> set (dp_security_issues
          (analyze_dns (txt_only ?recs) ''2025-01-01T00:00:00+00:00'' ''example.com''))"
    by blast+
  with answers show ?thesis by blast
qed

section \<open>The TLS Probe's Subject Alternative Names\<close>

lemma no_extensions_no_names: "extensions cert = None \<Longrightarrow> subject_alt_names cert = []"
  by (simp add: subject_alt_names_def)

text \<open>
  What the loop makes of an entry, had the dictionary one: the pieces between
  \<open>', '\<close> that hold a colon, each cut down to what stands between its first and its
  second colon (or the end).
\<close>

lemma san_loop_example:
  "subject_alt_names
     (example_cert\<lparr>extensions := Some [''subjectAltName: DNS:example.com, DNS:www.example.com'']\<rparr>) =
   ['' DNS'', ''www.example.com'']"
  by code_simp

text \<open>
  C7 fails on the code. The certificate of \<open>getpeercert()\<close> carries its names under
  \<open>subjectAltName\<close>; the probe looks under \<open>extensions\<close>, finds nothing, and reports
  no name.
\<close>

theorem subject_alt_names_dropped:
  "certificate_san example_cert = [''example.com'', ''www.example.com''] \<and>
   subject_alt_names example_cert = []"
  by (simp add: certificate_san_def subject_alt_names_def example_cert_def)

section \<open>The Target\<close>

lemma lower_char_not_upper: "\<not> is_upper (lower_char c)"
  by (auto simp: lower_char_def is_upper_def)

lemma lower_cased_lower: "lower_cased (lower s)"
  by (simp add: lower_cased_def lower_def list_all_iff lower_char_not_upper)

lemma lower_cased_subset: "set t \<subseteq> set s \<Longrightarrow> lower_cased s \<Longrightarrow> lower_cased t"
  by (auto simp: lower_cased_def list_all_iff)

lemma set_remove_all: "set (remove_all old s) \<subseteq> set s"
proof (induction old s rule: remove_all.induct)
  case (1 old)
  show ?case by simp
next
  case (2 old c cs)
  show ?case
  proof (cases "old \<noteq> [] \<and> prefix old (c # cs)")
    case True
    have "set (drop (length old - 1) cs) \<subseteq> set cs"
      by (rule set_drop_subset)
    with 2(1)[OF True] True show ?thesis by auto
  next
    case False
    with 2(2)[OF False] show ?thesis by auto
  qed
qed

lemma split_not_empty: "split sep s \<noteq> []"
  by (induction sep s rule: split.induct) (auto split: list.splits)

lemma hd_split_slash: "hd (split ''/'' s) = takeWhile (\<lambda>c. c \<noteq> CHR ''/'') s"
proof (induction s)
  case Nil
  show ?case by simp
next
  case (Cons c cs)
  obtain w ws where w: "split ''/'' cs = w # ws"
    using split_not_empty[of "''/''" cs] by (cases "split ''/'' cs") auto
  with Cons show ?case by auto
qed

lemma contains_char: "contains [c] s = (c \<in> set s)"
  by (induction s) auto

lemma contains_set: "contains sub s \<Longrightarrow> set sub \<subseteq> set s"
proof (induction s)
  case Nil
  then show ?case by simp
next
  case (Cons c cs)
  from Cons.prems have "prefix sub (c # cs) \<or> contains sub cs" by simp
  then show ?case
  proof
    assume "prefix sub (c # cs)"
    then show ?thesis by (rule set_mono_prefix)
  next
    assume "contains sub cs"
    from Cons.IH[OF this] show ?thesis by auto
  qed
qed

lemma clean_url_no_slash: "CHR ''/'' \<notin> set (clean_url raw)"
proof -
  have "CHR ''/'' \<notin> set (takeWhile (\<lambda>c. c \<noteq> CHR ''/'') s)" for s
    by (auto dest: set_takeWhileD)
  then show ?thesis
    by (simp add: clean_url_def Let_def hd_split_slash contains_char)
qed

lemma clean_url_chars: "set (clean_url raw) \<subseteq> set (lower (strip raw))"
proof -
  let ?u = "remove_all ''https://'' (remove_all ''http://'' (lower (strip raw)))"
  have u: "set ?u \<subseteq> set (lower (strip raw))"
    using set_remove_all[of "''https://''" "remove_all ''http://'' (lower (strip raw))"]
      set_remove_all[of "''http://''" "lower (strip raw)"]
    by blast
  have "set (takeWhile (\<lambda>c. c \<noteq> CHR ''/'') ?u) \<subseteq> set ?u"
    by (auto dest: set_takeWhileD)
  with u show ?thesis
    by (auto simp: clean_url_def Let_def hd_split_slash)
qed

text \<open>
  The claim as the specification words it fails for the probes that request URLs. For the
  raw string \<open>Example.com/admin\<close> the Aggregator passes \<open>example.com/admin\<close> to all
  three probes, and the Vulnerability and Header probes put \<open>https://\<close> in front of it:
  their Target holds a path.
\<close>

theorem target_keeps_path_counterexample:
  "snd (scan_website echo_backend ''Example.com/admin'') =
     [(''http://localhost:8001/check_ssl'',
       JObj [(''url'', JStr ''example.com/admin''), (''check_chain'', JBool True)]),
      (''http://localhost:8001/scan_vulnerabilities'',
       JObj [(''url'', JStr ''example.com/admin''), (''scan_depth'', JStr ''light'')]),
      (''http://localhost:8001/analyze_security_headers'',
       JObj [(''url'', JStr ''example.com/admin'')])] \<and>
   contains ''/'' ''example.com/admin'' \<and>
   request_url ''example.com/admin'' = ''https://example.com/admin''"
  by code_simp

text \<open>
  Nor does deleting the two schemes once each leave the Aggregator's string free of
  them.
\<close>

lemma scan_website_url_scheme_remains:
  "scan_website_url ''hthttp://tp://example.com'' = ''http://example.com''"
  by code_simp

text \<open>
  C6, as amended. For every raw string, the host that \<open>clean_url\<close> yields (the one the
  TLS and Port probes connect to, and the one the DNS probe resolves, which does the same
  steps itself) is lower-cased and holds no \<open>/\<close>, hence neither \<open>http://\<close> nor
  \<open>https://\<close>; and the string the Aggregator passes on is lower-cased.
\<close>

theorem clean_url_bare_host:
  "lower_cased (clean_url raw) \<and>
   \<not> contains ''/'' (clean_url raw) \<and>
   \<not> contains ''http://'' (clean_url raw) \<and>
   \<not> contains ''https://'' (clean_url raw) \<and>
   dp_domain (analyze_dns resolve ts raw) = clean_url raw \<and>
   lower_cased (scan_website_url raw)"
proof (intro conjI)
  have "lower_cased (lower (strip raw))" by (rule lower_cased_lower)
  with clean_url_chars show "lower_cased (clean_url raw)"
    by (rule lower_cased_subset)
  show "\<not> contains ''/'' (clean_url raw)"
    by (simp add: contains_char clean_url_no_slash)
  show "\<not> contains ''http://'' (clean_url raw)"
    using contains_set[of "''http://''" "clean_url raw"] clean_url_no_slash[of raw] by auto
  show "\<not> contains ''https://'' (clean_url raw)"
    using contains_set[of "''https://''" "clean_url raw"] clean_url_no_slash[of raw] by auto
  show "dp_domain (analyze_dns resolve ts raw) = clean_url raw"
    by (simp add: analyze_dns_def clean_url_def Let_def split: prod.splits)
  have "set (scan_website_url raw) \<subseteq> set (lower (strip raw))"
    unfolding scan_website_url_def
    using set_remove_all[of "''https://''" "remove_all ''http://'' (lower (strip raw))"]
      set_remove_all[of "''http://''" "lower (strip raw)"]
    by blast
  then show "lower_cased (scan_website_url raw)"
    using lower_cased_lower by (rule lower_cased_subset)
qed

lemma clean_url_example: "clean_url ''  HTTPS://Example.COM/Admin/login '' = ''example.com''"
  by code_simp

theorem clean_url_bare_host_witness:
  "lower_cased ''example.com'' \<and> \<not> contains ''/'' ''example.com'' \<and>
   \<not> contains ''http://'' ''example.com'' \<and> \<not> contains ''https://'' ''example.com''"
  using clean_url_bare_host[of "''  HTTPS://Example.COM/Admin/login ''"]
  unfolding clean_url_example by blast

section \<open>The Report Aggregator\<close>

text \<open>
  The claim as the specification words it fails: of the five probe routes the Aggregator
  posts to three, and its report has three keys.
\<close>

theorem five_probes_counterexample:
  "posted_routes echo_backend (snd (scan_website echo_backend ''example.com'')) =
     [''/check_ssl'', ''/scan_vulnerabilities'', ''/analyze_security_headers''] \<and>
   report_keys (fst (scan_website echo_backend ''example.com'')) =
     Some [''ssl'', ''vulnerabilities'', ''security_headers''] \<and>
   length probe_routes = 5"
  by code_simp

text \<open>
  C3, as amended. For every scan request the Aggregator makes three POSTs, in this order
  and with the one cleaned URL: to the TLS probe, to the Vulnerability probe (at depth
  \<open>light\<close>) and to the Header probe; the port and DNS routes are not posted to. The
  report it returns has the three keys \<open>ssl\<close>, \<open>vulnerabilities\<close> and
  \<open>security_headers\<close>, each with what its probe's tool returned (the decoded body or
  the error dictionary). It returns the report when the language model answers, and
  raises the HTTP error 500 otherwise.
\<close>

theorem scan_website_three_probes:
  "snd (scan_website e raw) =
     [(mcp_url e @ ''/check_ssl'',
       JObj [(''url'', JStr (scan_website_url raw)), (''check_chain'', JBool True)]),
      (mcp_url e @ ''/scan_vulnerabilities'',
       JObj [(''url'', JStr (scan_website_url raw)), (''scan_depth'', JStr ''light'')]),
      (mcp_url e @ ''/analyze_security_headers'',
       JObj [(''url'', JStr (scan_website_url raw))])] \<and>
   posted_routes e (snd (scan_website e raw)) =
     [''/check_ssl'', ''/scan_vulnerabilities'', ''/analyze_security_headers''] \<and>
   (\<forall>resp. fst (scan_website e raw) = Inr resp \<longrightarrow>
      results resp =
        [(''ssl'', fst (tool_check_ssl_certificate e (scan_website_url raw) True [])),
         (''vulnerabilities'',
          fst (tool_scan_vulnerabilities e (scan_website_url raw) ''light'' [])),
         (''security_headers'',
          fst (tool_analyze_security_headers e (scan_website_url raw) []))]) \<and>
   (\<forall>content.
      llm_invoke e
        (summary_prompt e (scan_website_url raw)
           (fst (tool_check_ssl_certificate e (scan_website_url raw) True []))
           (fst (tool_scan_vulnerabilities e (scan_website_url raw) ''light'' []))
           (fst (tool_analyze_security_headers e (scan_website_url raw) []))) = Inr content \<longrightarrow>
      report_keys (fst (scan_website e raw)) =
        Some [''ssl'', ''vulnerabilities'', ''security_headers'']) \<and>
   (\<forall>msg.
      llm_invoke e
        (summary_prompt e (scan_website_url raw)
           (fst (tool_check_ssl_certificate e (scan_website_url raw) True []))
           (fst (tool_scan_vulnerabilities e (scan_website_url raw) ''light'' []))
           (fst (tool_analyze_security_headers e (scan_website_url raw) []))) = Inl msg \<longrightarrow>
      fst (scan_website e raw) = Inl (HTTPException 500 (''Scan failed: '' @ msg)))"
  by (auto simp: scan_website_def Let_def tool_check_ssl_certificate_def
        tool_scan_vulnerabilities_def tool_analyze_security_headers_def
        posted_routes_def probe_routes_def report_keys_def
        split: sum.splits)

theorem scan_website_three_probes_witness:
  "llm_invoke echo_backend
     (summary_prompt echo_backend (scan_website_url ''Example.com'')
        (fst (tool_check_ssl_certificate echo_backend (scan_website_url ''Example.com'') True []))
        (fst (tool_scan_vulnerabilities echo_backend (scan_website_url ''Example.com'')
               ''light'' []))
        (fst (tool_analyze_security_headers echo_backend (scan_website_url ''Example.com'') []))) =
     Inr ''Overall security rating: Fair'' \<and>
   report_keys (fst (scan_website echo_backend ''Example.com'')) =
     Some [''ssl'', ''vulnerabilities'', ''security_headers''] \<and>
   posted_routes echo_backend (snd (scan_website echo_backend ''Example.com'')) =
     [''/check_ssl'', ''/scan_vulnerabilities'', ''/analyze_security_headers'']"
proof -
  have answered:
    "llm_invoke echo_backend
       (summary_prompt echo_backend (scan_website_url ''Example.com'')
          (fst (tool_check_ssl_certificate echo_backend (scan_website_url ''Example.com'') True []))
          (fst (tool_scan_vulnerabilities echo_backend (scan_website_url ''Example.com'')
                 ''light'' []))
          (fst (tool_analyze_security_headers echo_backend (scan_website_url ''Example.com'')
                 []))) =
       Inr ''Overall security rating: Fair''"
    by (simp add: echo_backend_def)
  from scan_website_three_probes[of echo_backend "''Example.com''"] answered
  show ?thesis by blast
qed

end
